theory Spec2Isabelle
  imports Complex_Main
begin

section \<open>The graph handle of cpp/src/structure/cugraph.cu\<close>

text \<open>
  The file manages one \<open>gdf_graph\<close> object holding up to three representations of a
  graph (edge list, adjacency list, transposed adjacency list) together with a cached
  vertex count and a negative-edge flag. Every operation mutates the handle through a
  pointer and reports a status, so each one is modelled as a function from the handle
  (and its arguments) to the pair of the outcome and the handle as the call leaves it.
  The handle is returned on failure as well: what a failed call leaves behind is part of
  the behaviour.

  Buffer sizes and counts are unbounded integers. Device allocation and device-to-host
  copies (\<open>ALLOC_TRY\<close>, \<open>CUDA_TRY\<close>, \<open>ALLOC_FREE_TRY\<close>) are taken to succeed. The
  handle and the index columns passed to a view are taken to be non-null pointers; the
  edge data of a view may be null, and is an option.
\<close>

subsection \<open>Type tags, status codes, outcomes\<close>

text \<open>
  Modelled from the spec: the type-tag enumeration \<open>gdf_dtype\<close> is declared outside the
  file. The file names six tags (the supported numeric kinds of the spec, section 4.3);
  any other enumerator is \<open>GDF_OTHER_DTYPE k\<close>.
\<close>

datatype gdf_dtype =
    GDF_INT8 | GDF_INT16 | GDF_INT32 | GDF_INT64 | GDF_FLOAT32 | GDF_FLOAT64
  | GDF_OTHER_DTYPE nat

text \<open>
  Modelled from the spec: the status enumeration \<open>gdf_error\<close> is declared outside the
  file, which names three of its values; any other status is \<open>GDF_OTHER_ERROR k\<close>.
\<close>

datatype gdf_error = GDF_SUCCESS | GDF_CUDA_ERROR | GDF_UNSUPPORTED_DTYPE | GDF_OTHER_ERROR nat

text \<open>
  Modelled from the spec: the tri-state property value (unknown, false, true) of the
  spec's data model; the file assigns \<open>GDF_PROP_TRUE\<close> and \<open>GDF_PROP_FALSE\<close>.
\<close>

datatype gdf_prop_type = GDF_PROP_UNDEF | GDF_PROP_FALSE | GDF_PROP_TRUE

text \<open>
  Modelled from the spec: the macro \<open>CUGRAPH_EXPECTS(cond, reason)\<close> comes from
  utilities/error_utils.h. Following section 7 of the spec (a violated precondition is
  reported to the caller as a typed failure), a false condition abandons the running
  operation, and every caller up the stack, with a \<open>Logic_error\<close> that carries the
  reason text (the source location that the macro adds to the message is left out);
  nothing after the macro runs.

  An operation therefore ends in one of three ways: it returns a status, it is abandoned
  by a \<open>Logic_error\<close>, or it reads through a null pointer.
\<close>

datatype outcome = Return gdf_error | Logic_error string | Null_dereference

definition failed :: "outcome \<Rightarrow> bool" where
  "failed r = (r \<noteq> Return GDF_SUCCESS)"

text \<open>The failure kinds of the spec (section 7), read off the reason texts and codes.\<close>

definition InvalidState :: "outcome \<Rightarrow> bool" where
  "InvalidState r = (r = Logic_error ''Invalid API parameter'')"

definition UnsupportedType :: "outcome \<Rightarrow> bool" where
  "UnsupportedType r =
     (r = Logic_error ''Unsupported data type'' \<or> r = Return GDF_UNSUPPORTED_DTYPE)"

definition ConversionFailure :: "outcome \<Rightarrow> bool" where
  "ConversionFailure r = (r = Return GDF_CUDA_ERROR)"

subsection \<open>Columns, representations, the handle\<close>

text \<open>
  A \<open>gdf_column\<close> is a descriptor: a data pointer, a validity bitmap pointer, a size, a
  type tag and a null count. The data pointer is modelled by the typed contents of the
  buffer it points to; \<open>size_col\<close> is the descriptor's own size field, which the code
  never compares with the buffer.
\<close>

record 'a gdf_column =
  data :: "'a list"
  valid :: "bool list option"
  size_col :: int
  dtype :: gdf_dtype
  null_count :: int

text \<open>
  Modelled from the spec: \<open>gdf_column_view\<close> belongs to the columnar buffer library. It
  fills a descriptor with the given pointer, bitmap, size and tag (section 6: a new
  descriptor for each output) and a null count of zero.
\<close>

definition gdf_column_view ::
  "'a list \<Rightarrow> bool list option \<Rightarrow> int \<Rightarrow> gdf_dtype \<Rightarrow> 'a gdf_column" where
  "gdf_column_view d v n t =
     \<lparr>data = d, valid = v, size_col = n, dtype = t, null_count = 0\<rparr>"

definition cpy_column_view :: "'a gdf_column \<Rightarrow> 'a gdf_column" where
  "cpy_column_view c = gdf_column_view (data c) (valid c) (size_col c) (dtype c)"

record 'w gdf_edge_list =
  src_indices :: "int gdf_column"
  dest_indices :: "int gdf_column"
  edge_data :: "'w gdf_column option"

record 'w gdf_adj_list =
  offsets :: "int gdf_column"
  indices :: "int gdf_column"
  edge_data_adj :: "'w gdf_column option"

text \<open>
  Modelled from the spec: \<open>gdf_graph_properties\<close> is declared outside the file, which
  touches its \<open>has_negative_edges\<close> field only; a fresh properties object holds the
  unknown value.
\<close>

record gdf_graph_properties =
  has_negative_edges :: gdf_prop_type

definition new_gdf_graph_properties :: gdf_graph_properties where
  "new_gdf_graph_properties = \<lparr>has_negative_edges = GDF_PROP_UNDEF\<rparr>"

record 'w gdf_graph =
  edgeList :: "'w gdf_edge_list option"
  adjList :: "'w gdf_adj_list option"
  transposedAdjList :: "'w gdf_adj_list option"
  prop_graph :: "gdf_graph_properties option"
  numberOfVertices :: int

text \<open>
  Modelled from the spec: the constructor of \<open>gdf_graph\<close> is declared outside the file. A
  handle is created empty (section 3): no representation, no properties object, and the
  vertex count zero, the value that \<open>gdf_number_of_vertices\<close> reads as not computed.
\<close>

definition empty_graph :: "'w gdf_graph" where
  "empty_graph =
     \<lparr>edgeList = None, adjList = None, transposedAdjList = None, prop_graph = None,
      numberOfVertices = 0\<rparr>"

definition no_representation :: "'w gdf_graph \<Rightarrow> bool" where
  "no_representation graph =
     (edgeList graph = None \<and> adjList graph = None \<and> transposedAdjList graph = None)"

subsection \<open>External collaborators\<close>

text \<open>
  Modelled from the spec: \<open>has_negative_val\<close> comes from utilities/validation.cuh. By
  section 4.3 it is the scan \<open>exists x in array: x < 0\<close> over the first \<open>n\<close> entries.
\<close>

definition has_negative_val :: "('w::{zero,ord}) list \<Rightarrow> int \<Rightarrow> bool" where
  "has_negative_val d n = list_ex (\<lambda>x. x < 0) (take (nat n) d)"

text \<open>
  Modelled from the spec: \<open>offsets_to_indices\<close> comes from utilities/graph_utils.cuh. By
  section 4.1, for each vertex \<open>v\<close> below the vertex count every entry of the output in
  the offset range \<open>[offsets[v], offsets[v+1])\<close> gets source \<open>v\<close>; entries outside every
  range keep what the output buffer held. The offsets are read within their buffer when
  it has \<open>v + 1\<close> entries, and a write outside the output buffer is dropped.
\<close>

definition fill_range :: "int list \<Rightarrow> int \<Rightarrow> int \<Rightarrow> int \<Rightarrow> int list" where
  "fill_range buf lo hi v =
     fold (\<lambda>i b. if 0 \<le> i then b[nat i := v] else b) [lo .. hi - 1] buf"

definition offsets_to_indices :: "int list \<Rightarrow> int \<Rightarrow> int list \<Rightarrow> int list" where
  "offsets_to_indices offs v buf =
     fold (\<lambda>tid b. fill_range b (offs ! tid) (offs ! Suc tid) (int tid)) [0 ..< nat v] buf"

text \<open>The conversion results of converters/COOtoCSR.cuh, and the weight instantiations.\<close>

record CSR_Result =
  size_csr :: int
  nnz :: int
  rowOffsets :: "int list"
  colIndices :: "int list"

record 'w CSR_Result_Weighted = CSR_Result +
  edgeWeights :: "'w list"

datatype WT = Float | Double

text \<open>
  The collaborators whose code is outside the file and whose result the spec leaves open
  are parameters of the model:
  \<^item> \<open>indexing_check\<close> (utilities/validation.cuh): the structural check of the index
    pairs, returning a status;
  \<^item> \<open>ConvertCOOtoCSR\<close> and \<open>ConvertCOOtoCSR_weighted\<close> (converters/COOtoCSR.cuh): the
    format converter, returning its integer status and the result it filled in (the
    weighted one is instantiated at a weight type and also reads the weights);
  \<^item> \<open>uninitialised\<close>: what cell \<open>i\<close> of a freshly allocated device buffer holds.
\<close>

record 'w externals =
  indexing_check :: "int list \<Rightarrow> int list \<Rightarrow> int \<Rightarrow> gdf_error"
  ConvertCOOtoCSR :: "int list \<Rightarrow> int list \<Rightarrow> int \<Rightarrow> int \<times> CSR_Result"
  ConvertCOOtoCSR_weighted ::
    "WT \<Rightarrow> int list \<Rightarrow> int list \<Rightarrow> 'w list \<Rightarrow> int \<Rightarrow> int \<times> 'w CSR_Result_Weighted"
  uninitialised :: "nat \<Rightarrow> int"

subsection \<open>Installing the first representation\<close>

text \<open>
  Modelled from the spec: the constructors of \<open>gdf_edge_list\<close> and \<open>gdf_adj_list\<close> are
  declared outside the file. Edge data are optional (section 3), and a representation
  made by \<open>new\<close> has none until one is assigned.

  The assignment \<open>graph->prop->has_negative_edges = v\<close> follows the lazy creation of the
  properties object.
\<close>

definition set_has_negative_edges :: "gdf_prop_type \<Rightarrow> 'w gdf_graph \<Rightarrow> 'w gdf_graph" where
  "set_has_negative_edges v graph =
     graph\<lparr>prop_graph := map_option (\<lambda>p. p\<lparr>has_negative_edges := v\<rparr>) (prop_graph graph)\<rparr>"

definition ensure_prop :: "'w gdf_graph \<Rightarrow> 'w gdf_graph" where
  "ensure_prop graph =
     (if prop_graph graph = None then graph\<lparr>prop_graph := Some new_gdf_graph_properties\<rparr>
      else graph)"

definition gdf_adj_list_view ::
  "('w::{zero,ord}) gdf_graph \<Rightarrow> int gdf_column \<Rightarrow> int gdf_column \<Rightarrow> 'w gdf_column option
     \<Rightarrow> outcome \<times> 'w gdf_graph" where
  "gdf_adj_list_view graph p_offsets p_indices p_edge_data =
    (if \<not> (edgeList graph = None \<and> adjList graph = None \<and> transposedAdjList graph = None)
       then (Logic_error ''Invalid API parameter'', graph)
     else if null_count p_offsets \<noteq> 0
       then (Logic_error ''Input column has non-zero null count'', graph)
     else if null_count p_indices \<noteq> 0
       then (Logic_error ''Input column has non-zero null count'', graph)
     else if dtype p_offsets \<noteq> dtype p_indices
       then (Logic_error ''Unsupported data type'', graph)
     else if dtype p_offsets \<noteq> GDF_INT32
       then (Logic_error ''Unsupported data type'', graph)
     else if \<not> size_col p_offsets > 0
       then (Logic_error ''Column is empty'', graph)
     else
       let adj = \<lparr>offsets = cpy_column_view p_offsets, indices = cpy_column_view p_indices,
                  edge_data_adj = None\<rparr>;
           g1 = ensure_prop (graph\<lparr>adjList := Some adj\<rparr>)
       in (case p_edge_data of
             Some ed \<Rightarrow>
               if size_col p_indices \<noteq> size_col ed
                 then (Logic_error ''Column size mismatch'', g1)
               else
                 let w = cpy_column_view ed;
                     adj' = adj\<lparr>edge_data_adj := Some w\<rparr>;
                     has_neg_val =
                       (case dtype w of
                          GDF_INT8 \<Rightarrow> has_negative_val (data w) (size_col w)
                        | GDF_INT16 \<Rightarrow> has_negative_val (data w) (size_col w)
                        | GDF_INT32 \<Rightarrow> has_negative_val (data w) (size_col w)
                        | GDF_INT64 \<Rightarrow> has_negative_val (data w) (size_col w)
                        | GDF_FLOAT32 \<Rightarrow> has_negative_val (data w) (size_col w)
                        | GDF_FLOAT64 \<Rightarrow> has_negative_val (data w) (size_col w)
                        | GDF_OTHER_DTYPE k \<Rightarrow> False);
                     g2 = set_has_negative_edges
                            (if has_neg_val then GDF_PROP_TRUE else GDF_PROP_FALSE)
                            (g1\<lparr>adjList := Some adj'\<rparr>)
                 in (Return GDF_SUCCESS, g2\<lparr>numberOfVertices := size_col (offsets adj') - 1\<rparr>)
           | None \<Rightarrow>
               let g2 = set_has_negative_edges GDF_PROP_FALSE g1
               in (Return GDF_SUCCESS, g2\<lparr>numberOfVertices := size_col (offsets adj) - 1\<rparr>)))"

definition gdf_edge_list_view ::
  "('w::{zero,ord}) externals \<Rightarrow> 'w gdf_graph \<Rightarrow> int gdf_column \<Rightarrow> int gdf_column
     \<Rightarrow> 'w gdf_column option \<Rightarrow> outcome \<times> 'w gdf_graph" where
  "gdf_edge_list_view ext graph p_src_indices p_dest_indices p_edge_data =
    (if \<not> (edgeList graph = None \<and> adjList graph = None \<and> transposedAdjList graph = None)
       then (Logic_error ''Invalid API parameter'', graph)
     else if size_col p_src_indices \<noteq> size_col p_dest_indices
       then (Logic_error ''Column size mismatch'', graph)
     else if dtype p_src_indices \<noteq> dtype p_dest_indices
       then (Logic_error ''Unsupported data type'', graph)
     else if dtype p_src_indices \<noteq> GDF_INT32
       then (Logic_error ''Unsupported data type'', graph)
     else if \<not> size_col p_src_indices > 0
       then (Logic_error ''Column is empty'', graph)
     else if null_count p_src_indices \<noteq> 0
       then (Logic_error ''Input column has non-zero null count'', graph)
     else if null_count p_dest_indices \<noteq> 0
       then (Logic_error ''Input column has non-zero null count'', graph)
     else
       let el = \<lparr>src_indices = cpy_column_view p_src_indices,
                 dest_indices = cpy_column_view p_dest_indices, edge_data = None\<rparr>;
           g1 = ensure_prop (graph\<lparr>edgeList := Some el\<rparr>)
       in (case p_edge_data of
             Some ed \<Rightarrow>
               if size_col p_src_indices \<noteq> size_col ed
                 then (Logic_error ''Column size mismatch'', g1)
               else
                 let w = cpy_column_view ed;
                     el' = el\<lparr>edge_data := Some w\<rparr>;
                     has_neg_val =
                       (case dtype w of
                          GDF_INT8 \<Rightarrow> has_negative_val (data w) (size_col w)
                        | GDF_INT16 \<Rightarrow> has_negative_val (data w) (size_col w)
                        | GDF_INT32 \<Rightarrow> has_negative_val (data w) (size_col w)
                        | GDF_INT64 \<Rightarrow> has_negative_val (data w) (size_col w)
                        | GDF_FLOAT32 \<Rightarrow> has_negative_val (data w) (size_col w)
                        | GDF_FLOAT64 \<Rightarrow> has_negative_val (data w) (size_col w)
                        | GDF_OTHER_DTYPE k \<Rightarrow> False);
                     g2 = set_has_negative_edges
                            (if has_neg_val then GDF_PROP_TRUE else GDF_PROP_FALSE)
                            (g1\<lparr>edgeList := Some el'\<rparr>)
                 in (Return (indexing_check ext (data (src_indices el'))
                               (data (dest_indices el')) (size_col (dest_indices el'))), g2)
           | None \<Rightarrow>
               let g2 = set_has_negative_edges GDF_PROP_FALSE g1
               in (Return (indexing_check ext (data (src_indices el))
                             (data (dest_indices el)) (size_col (dest_indices el))), g2)))"

subsection \<open>Deriving the other representations\<close>

definition gdf_add_adj_list_impl ::
  "'w externals \<Rightarrow> WT \<Rightarrow> 'w gdf_graph \<Rightarrow> outcome \<times> 'w gdf_graph" where
  "gdf_add_adj_list_impl ext wt graph =
    (case adjList graph of
       Some a \<Rightarrow> (Return GDF_SUCCESS, graph)
     | None \<Rightarrow>
        (case edgeList graph of
           None \<Rightarrow> (Logic_error ''Invalid API parameter'', graph)
         | Some e \<Rightarrow>
            let n = size_col (src_indices e);
                (status, adj) =
                  (case edge_data e of
                     Some w \<Rightarrow>
                       let (status, adj_list) =
                             ConvertCOOtoCSR_weighted ext wt (data (src_indices e))
                               (data (dest_indices e)) (data w) n
                       in (status,
                           \<lparr>offsets = gdf_column_view (rowOffsets adj_list) None
                                        (size_csr adj_list + 1) (dtype (src_indices e)),
                            indices = gdf_column_view (colIndices adj_list) None
                                        (nnz adj_list) (dtype (src_indices e)),
                            edge_data_adj = Some (gdf_column_view (edgeWeights adj_list) None
                                        (nnz adj_list) (dtype w))\<rparr>)
                   | None \<Rightarrow>
                       let (status, adj_list) =
                             ConvertCOOtoCSR ext (data (src_indices e)) (data (dest_indices e)) n
                       in (status,
                           \<lparr>offsets = gdf_column_view (rowOffsets adj_list) None
                                        (size_csr adj_list + 1) (dtype (src_indices e)),
                            indices = gdf_column_view (colIndices adj_list) None
                                        (nnz adj_list) (dtype (src_indices e)),
                            edge_data_adj = None\<rparr>));
                g1 = graph\<lparr>adjList := Some adj\<rparr>
            in if status \<noteq> 0 then (Return GDF_CUDA_ERROR, g1)
               else (Return GDF_SUCCESS, g1\<lparr>numberOfVertices := size_col (offsets adj) - 1\<rparr>)))"

definition gdf_add_edge_list :: "'w externals \<Rightarrow> 'w gdf_graph \<Rightarrow> outcome \<times> 'w gdf_graph" where
  "gdf_add_edge_list ext graph =
    (case edgeList graph of
       Some e \<Rightarrow> (Return GDF_SUCCESS, graph)
     | None \<Rightarrow>
        (case adjList graph of
           None \<Rightarrow> (Logic_error ''Invalid API parameter'', graph)
         | Some a \<Rightarrow>
            let d_src = offsets_to_indices (data (offsets a)) (size_col (offsets a) - 1)
                          (map (uninitialised ext) [0 ..< nat (size_col (indices a))]);
                el = \<lparr>src_indices = gdf_column_view d_src None (size_col (indices a))
                                       (dtype (indices a)),
                      dest_indices = cpy_column_view (indices a),
                      edge_data = (case edge_data_adj a of
                                     Some w \<Rightarrow> Some (cpy_column_view w)
                                   | None \<Rightarrow> None)\<rparr>
            in (Return GDF_SUCCESS, graph\<lparr>edgeList := Some el\<rparr>)))"

definition gdf_add_transposed_adj_list_impl ::
  "'w externals \<Rightarrow> WT \<Rightarrow> 'w gdf_graph \<Rightarrow> outcome \<times> 'w gdf_graph" where
  "gdf_add_transposed_adj_list_impl ext wt graph =
    (case transposedAdjList graph of
       Some t \<Rightarrow> (Return GDF_SUCCESS, graph)
     | None \<Rightarrow>
        (case edgeList graph of
           None \<Rightarrow> (Logic_error ''Invalid API parameter'', graph)
         | Some e \<Rightarrow>
            let n = size_col (src_indices e);
                (status, adj) =
                  (case edge_data e of
                     Some w \<Rightarrow>
                       let (status, adj_list) =
                             ConvertCOOtoCSR_weighted ext wt (data (dest_indices e))
                               (data (src_indices e)) (data w) n
                       in (status,
                           \<lparr>offsets = gdf_column_view (rowOffsets adj_list) None
                                        (size_csr adj_list + 1) (dtype (src_indices e)),
                            indices = gdf_column_view (colIndices adj_list) None
                                        (nnz adj_list) (dtype (src_indices e)),
                            edge_data_adj = Some (gdf_column_view (edgeWeights adj_list) None
                                        (nnz adj_list) (dtype w))\<rparr>)
                   | None \<Rightarrow>
                       let (status, adj_list) =
                             ConvertCOOtoCSR ext (data (dest_indices e)) (data (src_indices e)) n
                       in (status,
                           \<lparr>offsets = gdf_column_view (rowOffsets adj_list) None
                                        (size_csr adj_list + 1) (dtype (src_indices e)),
                            indices = gdf_column_view (colIndices adj_list) None
                                        (nnz adj_list) (dtype (src_indices e)),
                            edge_data_adj = None\<rparr>));
                g1 = graph\<lparr>transposedAdjList := Some adj\<rparr>
            in if status \<noteq> 0 then (Return GDF_CUDA_ERROR, g1)
               else (Return GDF_SUCCESS, g1\<lparr>numberOfVertices := size_col (offsets adj) - 1\<rparr>)))"

definition gdf_add_adj_list :: "'w externals \<Rightarrow> 'w gdf_graph \<Rightarrow> outcome \<times> 'w gdf_graph" where
  "gdf_add_adj_list ext graph =
    (if adjList graph \<noteq> None then (Return GDF_SUCCESS, graph)
     else
       (case edgeList graph of
          None \<Rightarrow> (Logic_error ''Invalid API parameter'', graph)
        | Some e \<Rightarrow>
           if dtype (src_indices e) \<noteq> GDF_INT32
             then (Logic_error ''Unsupported data type'', graph)
           else
             (case edge_data e of
                Some w \<Rightarrow>
                  (case dtype w of
                     GDF_FLOAT32 \<Rightarrow> gdf_add_adj_list_impl ext Float graph
                   | GDF_FLOAT64 \<Rightarrow> gdf_add_adj_list_impl ext Double graph
                   | _ \<Rightarrow> (Return GDF_UNSUPPORTED_DTYPE, graph))
              | None \<Rightarrow> gdf_add_adj_list_impl ext Float graph)))"

text \<open>
  \<open>gdf_add_transposed_adj_list\<close> ignores the status that \<open>gdf_add_edge_list\<close> returns;
  a \<open>Logic_error\<close> raised inside it passes through the caller.
\<close>

definition gdf_add_transposed_adj_list ::
  "'w externals \<Rightarrow> 'w gdf_graph \<Rightarrow> outcome \<times> 'w gdf_graph" where
  "gdf_add_transposed_adj_list ext graph =
    (let (r, g1) = (if edgeList graph = None then gdf_add_edge_list ext graph
                    else (Return GDF_SUCCESS, graph))
     in (case r of
           Logic_error reason \<Rightarrow> (Logic_error reason, g1)
         | Null_dereference \<Rightarrow> (Null_dereference, g1)
         | Return ignored \<Rightarrow>
            (case edgeList g1 of
               None \<Rightarrow> (Null_dereference, g1)
             | Some e \<Rightarrow>
                if dtype (src_indices e) \<noteq> GDF_INT32
                  then (Logic_error ''Unsupported data type'', g1)
                else if dtype (dest_indices e) \<noteq> GDF_INT32
                  then (Logic_error ''Unsupported data type'', g1)
                else
                  (case edge_data e of
                     Some w \<Rightarrow>
                       (case dtype w of
                          GDF_FLOAT32 \<Rightarrow> gdf_add_transposed_adj_list_impl ext Float g1
                        | GDF_FLOAT64 \<Rightarrow> gdf_add_transposed_adj_list_impl ext Double g1
                        | _ \<Rightarrow> (Return GDF_UNSUPPORTED_DTYPE, g1))
                   | None \<Rightarrow> gdf_add_transposed_adj_list_impl ext Float g1))))"

subsection \<open>Releasing a representation\<close>

definition gdf_delete_adj_list :: "'w gdf_graph \<Rightarrow> outcome \<times> 'w gdf_graph" where
  "gdf_delete_adj_list graph = (Return GDF_SUCCESS, graph\<lparr>adjList := None\<rparr>)"

definition gdf_delete_edge_list :: "'w gdf_graph \<Rightarrow> outcome \<times> 'w gdf_graph" where
  "gdf_delete_edge_list graph = (Return GDF_SUCCESS, graph\<lparr>edgeList := None\<rparr>)"

definition gdf_delete_transposed_adj_list :: "'w gdf_graph \<Rightarrow> outcome \<times> 'w gdf_graph" where
  "gdf_delete_transposed_adj_list graph =
     (Return GDF_SUCCESS, graph\<lparr>transposedAdjList := None\<rparr>)"

subsection \<open>The vertex count\<close>

text \<open>
  The two maxima are \<open>int32_t\<close> values and \<open>1 + std::max(h_max[0], h_max[1])\<close> is computed
  in 32-bit signed arithmetic; the wrap-around is written out. \<open>cub::DeviceReduce::Max\<close>
  reduces the first \<open>n\<close> items starting from the lowest value of the item type. Both
  reductions run over \<open>src_indices->size\<close> items.
\<close>

definition INT32_LOWEST :: int where
  "INT32_LOWEST = - (2 ^ 31)"

definition int32_wrap :: "int \<Rightarrow> int" where
  "int32_wrap x = (x + 2 ^ 31) mod 2 ^ 32 - 2 ^ 31"

definition DeviceReduce_Max :: "int list \<Rightarrow> int \<Rightarrow> int" where
  "DeviceReduce_Max d n = fold max (take (nat n) d) INT32_LOWEST"

definition gdf_number_of_vertices :: "'w gdf_graph \<Rightarrow> outcome \<times> 'w gdf_graph" where
  "gdf_number_of_vertices graph =
    (if numberOfVertices graph \<noteq> 0 then (Return GDF_SUCCESS, graph)
     else
       (case edgeList graph of
          None \<Rightarrow> (Logic_error ''Invalid API parameter'', graph)
        | Some e \<Rightarrow>
           if dtype (src_indices e) \<noteq> GDF_INT32
             then (Logic_error ''Unsupported data type'', graph)
           else
             let h_max0 = DeviceReduce_Max (data (src_indices e)) (size_col (src_indices e));
                 h_max1 = DeviceReduce_Max (data (dest_indices e)) (size_col (src_indices e))
             in (Return GDF_SUCCESS,
                 graph\<lparr>numberOfVertices := int32_wrap (1 + max h_max0 h_max1)\<rparr>)))"

subsection \<open>The format converter and the buffers, as the spec describes them\<close>

text \<open>
  The adjacency list that describes a conversion of \<open>(first, second[, weight])\<close>: the
  converter (the weighted one when weights are given) run on the \<open>n\<close> edges, and its
  result viewed as offsets of length \<open>V + 1\<close>, indices and weights. The first component
  is the converter's status.
\<close>

definition format_converter ::
  "'w externals \<Rightarrow> WT \<Rightarrow> gdf_dtype \<Rightarrow> int list \<Rightarrow> int list \<Rightarrow> 'w gdf_column option \<Rightarrow> int
     \<Rightarrow> int \<times> 'w gdf_adj_list" where
  "format_converter ext wt idx first second weight n =
     (case weight of
        Some w \<Rightarrow>
          (fst (ConvertCOOtoCSR_weighted ext wt first second (data w) n),
           let r = snd (ConvertCOOtoCSR_weighted ext wt first second (data w) n)
           in \<lparr>offsets = gdf_column_view (rowOffsets r) None (size_csr r + 1) idx,
               indices = gdf_column_view (colIndices r) None (nnz r) idx,
               edge_data_adj = Some (gdf_column_view (edgeWeights r) None (nnz r) (dtype w))\<rparr>)
      | None \<Rightarrow>
          (fst (ConvertCOOtoCSR ext first second n),
           let r = snd (ConvertCOOtoCSR ext first second n)
           in \<lparr>offsets = gdf_column_view (rowOffsets r) None (size_csr r + 1) idx,
               indices = gdf_column_view (colIndices r) None (nnz r) idx,
               edge_data_adj = None\<rparr>))"

text \<open>The weight instantiation that the dispatch selects for the weights of an edge list.\<close>

definition weight_type :: "'w gdf_column option \<Rightarrow> WT" where
  "weight_type weight =
     (case weight of
        Some w \<Rightarrow> if dtype w = GDF_FLOAT64 then Double else Float
      | None \<Rightarrow> Float)"

text \<open>
  An index buffer of the data model: the descriptor's size is the length of the buffer,
  and the buffer holds 32-bit signed values.
\<close>

definition int32_buffer :: "int gdf_column \<Rightarrow> bool" where
  "int32_buffer c =
     (size_col c = int (length (data c)) \<and>
      list_all (\<lambda>x. - (2 ^ 31) \<le> x \<and> x < 2 ^ 31) (data c))"

text \<open>The negative-edge flag of a handle, when its properties object exists.\<close>

definition negative_edges :: "'w gdf_graph \<Rightarrow> gdf_prop_type option" where
  "negative_edges graph = map_option has_negative_edges (prop_graph graph)"

subsection \<open>A reference instance of the collaborators\<close>

text \<open>
  Modelled from the spec: the Format Converter of section 4.2, whose code
  (converters/COOtoCSR.cuh) is outside the file. It groups the \<open>n\<close> edges by source
  with a stable sort, the offsets have one entry more than the vertex count implied by
  the edges, the weights are permuted like the indices, and the status is zero.
\<close>

definition coo_vertices :: "int list \<Rightarrow> int list \<Rightarrow> int \<Rightarrow> int" where
  "coo_vertices src dst n = 1 + fold max (take (nat n) src @ take (nat n) dst) (- 1)"

definition coo_order :: "int list \<Rightarrow> int \<Rightarrow> nat list" where
  "coo_order src n = sort_key (\<lambda>i. src ! i) [0 ..< min (nat n) (length src)]"

definition coo_offsets :: "int list \<Rightarrow> int list \<Rightarrow> int \<Rightarrow> int list" where
  "coo_offsets src dst n =
     map (\<lambda>v. int (length (filter (\<lambda>s. s < v) (take (nat n) src))))
       [0 .. coo_vertices src dst n]"

definition convert_to_adjacency :: "int list \<Rightarrow> int list \<Rightarrow> int \<Rightarrow> int \<times> CSR_Result" where
  "convert_to_adjacency src dst n =
     (0, \<lparr>size_csr = coo_vertices src dst n, nnz = n, rowOffsets = coo_offsets src dst n,
          colIndices = map (\<lambda>i. dst ! i) (coo_order src n)\<rparr>)"

definition convert_to_adjacency_weighted ::
  "int list \<Rightarrow> int list \<Rightarrow> 'w list \<Rightarrow> int \<Rightarrow> int \<times> 'w CSR_Result_Weighted" where
  "convert_to_adjacency_weighted src dst weight n =
     (0, \<lparr>size_csr = coo_vertices src dst n, nnz = n, rowOffsets = coo_offsets src dst n,
          colIndices = map (\<lambda>i. dst ! i) (coo_order src n),
          edgeWeights = map (\<lambda>i. weight ! i) (coo_order src n)\<rparr>)"

text \<open>
  The reference instance: the converter above, an indexing check that passes every
  input, and fresh device memory that holds zeros.
\<close>

definition reference_externals :: "'w externals" where
  "reference_externals =
     \<lparr>indexing_check = (\<lambda>srcs dests n. GDF_SUCCESS),
      ConvertCOOtoCSR = convert_to_adjacency,
      ConvertCOOtoCSR_weighted = (\<lambda>wt. convert_to_adjacency_weighted),
      uninitialised = (\<lambda>i. 0)\<rparr>"



text \<open>An int32 column over a buffer, and a weight column of a given kind.\<close>

definition int32_column :: "int list \<Rightarrow> int gdf_column" where
  "int32_column xs = gdf_column_view xs None (int (length xs)) GDF_INT32"

definition weight_column :: "gdf_dtype \<Rightarrow> 'w list \<Rightarrow> 'w gdf_column" where
  "weight_column t xs = gdf_column_view xs None (int (length xs)) t"

section \<open>Properties\<close>

subsection \<open>The view operations\<close>



lemmas view_defs =
  ensure_prop_def set_has_negative_edges_def cpy_column_view_def gdf_column_view_def
  new_gdf_graph_properties_def negative_edges_def

lemma adj_view_accepts:
  assumes "no_representation g"
    and "null_count offs = 0" and "null_count inds = 0"
    and "dtype offs = GDF_INT32" and "dtype inds = GDF_INT32"
    and "0 < size_col offs"
    and "\<forall>w. ed = Some w \<longrightarrow> size_col w = size_col inds"
  shows "fst (gdf_adj_list_view g offs inds ed) = Return GDF_SUCCESS \<and>
         adjList (snd (gdf_adj_list_view g offs inds ed)) =
           Some \<lparr>offsets = cpy_column_view offs, indices = cpy_column_view inds,
                 edge_data_adj = map_option cpy_column_view ed\<rparr> \<and>
         edgeList (snd (gdf_adj_list_view g offs inds ed)) = None \<and>
         transposedAdjList (snd (gdf_adj_list_view g offs inds ed)) = None \<and>
         numberOfVertices (snd (gdf_adj_list_view g offs inds ed)) = size_col offs - 1"
  using assms
  by (cases ed) (simp_all add: gdf_adj_list_view_def no_representation_def Let_def view_defs)

lemma edge_view_accepts:
  assumes "no_representation g"
    and "size_col s = size_col d"
    and "dtype s = GDF_INT32" and "dtype d = GDF_INT32"
    and "0 < size_col s"
    and "null_count s = 0" and "null_count d = 0"
    and "\<forall>w. ed = Some w \<longrightarrow> size_col w = size_col s"
  shows "fst (gdf_edge_list_view ext g s d ed) =
           Return (indexing_check ext (data s) (data d) (size_col d)) \<and>
         edgeList (snd (gdf_edge_list_view ext g s d ed)) =
           Some \<lparr>src_indices = cpy_column_view s, dest_indices = cpy_column_view d,
                 edge_data = map_option cpy_column_view ed\<rparr> \<and>
         adjList (snd (gdf_edge_list_view ext g s d ed)) = None \<and>
         transposedAdjList (snd (gdf_edge_list_view ext g s d ed)) = None \<and>
         numberOfVertices (snd (gdf_edge_list_view ext g s d ed)) = numberOfVertices g"
  using assms
  by (cases ed) (simp_all add: gdf_edge_list_view_def no_representation_def Let_def view_defs)

lemma adj_view_other_kind:
  assumes "no_representation g"
    and "null_count offs = 0" and "null_count inds = 0"
    and "dtype offs = GDF_INT32" and "dtype inds = GDF_INT32"
    and "0 < size_col offs"
    and "size_col w = size_col inds" and "dtype w = GDF_OTHER_DTYPE k"
  shows "negative_edges (snd (gdf_adj_list_view g offs inds (Some w))) = Some GDF_PROP_FALSE"
  using assms
  by (cases "prop_graph g")
     (simp_all add: gdf_adj_list_view_def no_representation_def Let_def view_defs)

lemma edge_view_other_kind:
  assumes "no_representation g"
    and "size_col s = size_col d"
    and "dtype s = GDF_INT32" and "dtype d = GDF_INT32"
    and "0 < size_col s"
    and "null_count s = 0" and "null_count d = 0"
    and "size_col w = size_col s" and "dtype w = GDF_OTHER_DTYPE k"
  shows "negative_edges (snd (gdf_edge_list_view ext g s d (Some w))) = Some GDF_PROP_FALSE"
  using assms
  by (cases "prop_graph g")
     (simp_all add: gdf_edge_list_view_def no_representation_def Let_def view_defs)

lemma adj_view_eager_failure:
  assumes "\<not> (no_representation g \<and> null_count offs = 0 \<and> null_count inds = 0 \<and>
             dtype offs = GDF_INT32 \<and> dtype inds = GDF_INT32 \<and> 0 < size_col offs)"
  shows "snd (gdf_adj_list_view g offs inds ed) = g"
  using assms by (auto simp: gdf_adj_list_view_def no_representation_def)

lemma edge_view_eager_failure:
  assumes "\<not> (no_representation g \<and> size_col s = size_col d \<and> dtype s = GDF_INT32 \<and>
             dtype d = GDF_INT32 \<and> 0 < size_col s \<and> null_count s = 0 \<and> null_count d = 0)"
  shows "snd (gdf_edge_list_view ext g s d ed) = g"
  using assms by (auto simp: gdf_edge_list_view_def no_representation_def)

lemma adj_view_failure_unchanged:
  assumes "failed (fst (gdf_adj_list_view g offs inds ed))"
    and "\<forall>w. ed = Some w \<longrightarrow> size_col w = size_col inds"
  shows "snd (gdf_adj_list_view g offs inds ed) = g"
proof (cases "no_representation g \<and> null_count offs = 0 \<and> null_count inds = 0 \<and>
             dtype offs = GDF_INT32 \<and> dtype inds = GDF_INT32 \<and> 0 < size_col offs")
  case True
  with assms(2) have "fst (gdf_adj_list_view g offs inds ed) = Return GDF_SUCCESS"
    using adj_view_accepts [of g offs inds ed] by blast
  with assms(1) show ?thesis by (simp add: failed_def)
next
  case False
  then show ?thesis by (rule adj_view_eager_failure)
qed

lemma edge_view_failure_unchanged:
  assumes "failed (fst (gdf_edge_list_view ext g s d ed))"
    and "\<forall>w. ed = Some w \<longrightarrow> size_col w = size_col s"
    and "indexing_check ext (data s) (data d) (size_col d) = GDF_SUCCESS"
  shows "snd (gdf_edge_list_view ext g s d ed) = g"
proof (cases "no_representation g \<and> size_col s = size_col d \<and> dtype s = GDF_INT32 \<and>
             dtype d = GDF_INT32 \<and> 0 < size_col s \<and> null_count s = 0 \<and> null_count d = 0")
  case True
  with assms(2) have "fst (gdf_edge_list_view ext g s d ed) =
      Return (indexing_check ext (data s) (data d) (size_col d))"
    using edge_view_accepts [of g s d ed ext] by blast
  with assms(1,3) show ?thesis by (simp add: failed_def)
next
  case False
  then show ?thesis by (rule edge_view_eager_failure)
qed

subsection \<open>The derivations\<close>

lemma add_edge_list_no_source:
  "edgeList g = None \<Longrightarrow> adjList g = None \<Longrightarrow>
     gdf_add_edge_list ext g = (Logic_error ''Invalid API parameter'', g)"
  by (simp add: gdf_add_edge_list_def)

lemma add_edge_list_derives:
  assumes "edgeList g = None" and "adjList g = Some a"
  shows "fst (gdf_add_edge_list ext g) = Return GDF_SUCCESS \<and>
         (\<exists>e. edgeList (snd (gdf_add_edge_list ext g)) = Some e \<and>
              dest_indices e = cpy_column_view (indices a) \<and>
              edge_data e = map_option cpy_column_view (edge_data_adj a) \<and>
              dtype (src_indices e) = dtype (indices a) \<and>
              size_col (src_indices e) = size_col (indices a)) \<and>
         adjList (snd (gdf_add_edge_list ext g)) = adjList g \<and>
         transposedAdjList (snd (gdf_add_edge_list ext g)) = transposedAdjList g"
  using assms
  by (cases "edge_data_adj a") (simp_all add: gdf_add_edge_list_def Let_def gdf_column_view_def)

lemma add_adj_list_impl_failure:
  assumes "failed (fst (gdf_add_adj_list_impl ext wt g))"
    and "\<not> ConversionFailure (fst (gdf_add_adj_list_impl ext wt g))"
  shows "snd (gdf_add_adj_list_impl ext wt g) = g"
  using assms
  by (auto simp: gdf_add_adj_list_impl_def failed_def ConversionFailure_def Let_def
      split: option.splits prod.splits if_splits)

lemma add_transposed_adj_list_impl_failure:
  assumes "failed (fst (gdf_add_transposed_adj_list_impl ext wt g))"
    and "\<not> ConversionFailure (fst (gdf_add_transposed_adj_list_impl ext wt g))"
  shows "snd (gdf_add_transposed_adj_list_impl ext wt g) = g"
  using assms
  by (auto simp: gdf_add_transposed_adj_list_impl_def failed_def ConversionFailure_def Let_def
      split: option.splits prod.splits if_splits)

lemma add_adj_list_failure_unchanged:
  assumes "failed (fst (gdf_add_adj_list ext g))"
    and "\<not> ConversionFailure (fst (gdf_add_adj_list ext g))"
  shows "snd (gdf_add_adj_list ext g) = g"
  using assms
  by (auto simp: gdf_add_adj_list_def add_adj_list_impl_failure
      split: option.splits if_splits gdf_dtype.splits)

lemma add_transposed_adj_list_failure_unchanged:
  assumes "failed (fst (gdf_add_transposed_adj_list ext g))"
    and "\<not> ConversionFailure (fst (gdf_add_transposed_adj_list ext g))"
    and "edgeList g \<noteq> None \<or> adjList g = None"
  shows "snd (gdf_add_transposed_adj_list ext g) = g"
proof (cases "edgeList g")
  case None
  with assms(3) have "adjList g = None" by simp
  with None show ?thesis
    by (simp add: gdf_add_transposed_adj_list_def add_edge_list_no_source)
next
  case (Some e)
  with assms(1,2) show ?thesis
    by (auto simp: gdf_add_transposed_adj_list_def add_transposed_adj_list_impl_failure
        split: option.splits if_splits gdf_dtype.splits)
qed

lemma add_transposed_adj_list_no_null_dereference:
  "fst (gdf_add_transposed_adj_list ext g) \<noteq> Null_dereference"
proof (cases "edgeList g")
  case None
  show ?thesis
  proof (cases "adjList g")
    case None
    with \<open>edgeList g = None\<close> show ?thesis
      by (simp add: gdf_add_transposed_adj_list_def add_edge_list_no_source)
  next
    case (Some a)
    with \<open>edgeList g = None\<close> add_edge_list_derives [of g a ext] show ?thesis
      by (auto simp: gdf_add_transposed_adj_list_def gdf_add_transposed_adj_list_impl_def
          Let_def split: prod.splits option.splits gdf_dtype.splits outcome.splits)
  qed
next
  case (Some e)
  then show ?thesis
    by (auto simp: gdf_add_transposed_adj_list_def gdf_add_transposed_adj_list_impl_def
        Let_def split: prod.splits option.splits gdf_dtype.splits)
qed

subsection \<open>The vertex-count reduction\<close>

lemma fold_max_lower:
  "fold max xs (a::int) = (if xs = [] then a else max a (Max (set xs)))"
proof (induction xs arbitrary: a)
  case Nil
  then show ?case by simp
next
  case (Cons x xs)
  show ?case
  proof (cases "xs = []")
    case True
    then show ?thesis by (simp add: max.commute)
  next
    case False
    then show ?thesis
      using Cons.IH [of "max x a"] by (simp add: max.assoc max.commute max.left_commute)
  qed
qed

lemma DeviceReduce_Max_full:
  assumes "int32_buffer c" and "0 < size_col c"
  shows "DeviceReduce_Max (data c) (size_col c) = Max (set (data c))"
proof -
  from assms have len: "nat (size_col c) = length (data c)" and ne: "data c \<noteq> []"
    by (auto simp: int32_buffer_def)
  from assms(1) have "\<forall>x\<in>set (data c). INT32_LOWEST \<le> x"
    by (auto simp: int32_buffer_def INT32_LOWEST_def list_all_iff)
  with ne have "INT32_LOWEST \<le> Max (set (data c))"
    by (simp add: Max_ge_iff) (meson last_in_set)
  with len ne show ?thesis
    by (simp add: DeviceReduce_Max_def fold_max_lower max_def)
qed

lemma int32_wrap_in_range:
  assumes "- (2 ^ 31) \<le> x" and "x < 2 ^ 31"
  shows "int32_wrap x = x"
  using assms by (simp add: int32_wrap_def)

lemma int32_buffer_Max_bounds:
  assumes "int32_buffer c" and "0 < size_col c"
  shows "- (2 ^ 31) \<le> Max (set (data c)) \<and> Max (set (data c)) < 2 ^ 31"
proof -
  from assms have ne: "set (data c) \<noteq> {}" by (auto simp: int32_buffer_def)
  then have "Max (set (data c)) \<in> set (data c)" by (intro Max_in) simp_all
  with assms(1) show ?thesis by (auto simp: int32_buffer_def list_all_iff)
qed

subsection \<open>Dispatch and conversion\<close>

lemma add_transposed_adj_list_impl_success:
  assumes "fst (gdf_add_transposed_adj_list_impl ext wt g) = Return GDF_SUCCESS"
    and "edgeList g = Some e"
  shows "edgeList (snd (gdf_add_transposed_adj_list_impl ext wt g)) = Some e \<and>
         (transposedAdjList g = None \<longrightarrow>
            fst (format_converter ext wt (dtype (src_indices e)) (data (dest_indices e))
                   (data (src_indices e)) (edge_data e) (size_col (src_indices e))) = 0 \<and>
            transposedAdjList (snd (gdf_add_transposed_adj_list_impl ext wt g)) =
              Some (snd (format_converter ext wt (dtype (src_indices e)) (data (dest_indices e))
                           (data (src_indices e)) (edge_data e) (size_col (src_indices e))))) \<and>
         (transposedAdjList g \<noteq> None \<longrightarrow>
            transposedAdjList (snd (gdf_add_transposed_adj_list_impl ext wt g)) =
              transposedAdjList g)"
  using assms
  by (cases "transposedAdjList g"; cases "edge_data e")
     (simp_all add: gdf_add_transposed_adj_list_impl_def format_converter_def Let_def
        split_beta split: if_splits)

lemma add_transposed_adj_list_dispatch:
  assumes "edgeList g = Some e"
    and "fst (gdf_add_transposed_adj_list ext g) = Return GDF_SUCCESS"
  shows "gdf_add_transposed_adj_list ext g =
           gdf_add_transposed_adj_list_impl ext (weight_type (edge_data e)) g"
  using assms
  by (cases "edge_data e")
     (auto simp: gdf_add_transposed_adj_list_def weight_type_def
        split: if_splits gdf_dtype.splits)

lemma add_transposed_adj_list_after_derivation:
  assumes "edgeList g = None" and "adjList g = Some a"
  shows "gdf_add_transposed_adj_list ext g =
           gdf_add_transposed_adj_list ext (snd (gdf_add_edge_list ext g))"
proof -
  from add_edge_list_derives [OF assms, of ext]
  obtain e where "fst (gdf_add_edge_list ext g) = Return GDF_SUCCESS"
    and "edgeList (snd (gdf_add_edge_list ext g)) = Some e"
    by blast
  with assms(1) show ?thesis
    by (simp add: gdf_add_transposed_adj_list_def split_beta)
qed

lemma add_adj_list_impl_installs:
  assumes "adjList g = None" and "edgeList g = Some e"
  shows "adjList (snd (gdf_add_adj_list_impl ext wt g)) =
           Some (snd (format_converter ext wt (dtype (src_indices e)) (data (src_indices e))
                        (data (dest_indices e)) (edge_data e) (size_col (src_indices e)))) \<and>
         fst (gdf_add_adj_list_impl ext wt g) \<in> {Return GDF_SUCCESS, Return GDF_CUDA_ERROR}"
  using assms
  by (cases "edge_data e")
     (simp_all add: gdf_add_adj_list_impl_def format_converter_def Let_def split_beta)

lemma add_transposed_adj_list_impl_installs:
  assumes "transposedAdjList g = None" and "edgeList g = Some e"
  shows "transposedAdjList (snd (gdf_add_transposed_adj_list_impl ext wt g)) =
           Some (snd (format_converter ext wt (dtype (src_indices e)) (data (dest_indices e))
                        (data (src_indices e)) (edge_data e) (size_col (src_indices e)))) \<and>
         fst (gdf_add_transposed_adj_list_impl ext wt g) \<in>
           {Return GDF_SUCCESS, Return GDF_CUDA_ERROR}"
  using assms
  by (cases "edge_data e")
     (simp_all add: gdf_add_transposed_adj_list_impl_def format_converter_def Let_def split_beta)

lemma add_transposed_adj_list_impl_cached:
  "transposedAdjList g \<noteq> None \<Longrightarrow>
     gdf_add_transposed_adj_list_impl ext wt g = (Return GDF_SUCCESS, g)"
  by (auto simp: gdf_add_transposed_adj_list_impl_def)

lemma add_adj_list_float:
  assumes "edgeList g = Some e" and "edge_data e = Some w"
    and "dtype (src_indices e) = GDF_INT32"
    and "dtype w = GDF_FLOAT32 \<or> dtype w = GDF_FLOAT64"
  shows "gdf_add_adj_list ext g =
           (if adjList g = None then gdf_add_adj_list_impl ext (weight_type (Some w)) g
            else (Return GDF_SUCCESS, g))"
  using assms by (auto simp: gdf_add_adj_list_def weight_type_def)

lemma add_transposed_adj_list_float:
  assumes "edgeList g = Some e" and "edge_data e = Some w"
    and "dtype (src_indices e) = GDF_INT32" and "dtype (dest_indices e) = GDF_INT32"
    and "dtype w = GDF_FLOAT32 \<or> dtype w = GDF_FLOAT64"
  shows "gdf_add_transposed_adj_list ext g =
           gdf_add_transposed_adj_list_impl ext (weight_type (Some w)) g"
  using assms by (auto simp: gdf_add_transposed_adj_list_def weight_type_def)

subsection \<open>Evaluation on concrete handles\<close>

lemmas eval_defs =
  gdf_adj_list_view_def gdf_edge_list_view_def gdf_add_edge_list_def
  gdf_add_transposed_adj_list_def gdf_add_transposed_adj_list_impl_def
  gdf_add_adj_list_def gdf_add_adj_list_impl_def
  empty_graph_def int32_column_def weight_column_def view_defs Let_def
  offsets_to_indices_def fill_range_def reference_externals_def
  convert_to_adjacency_def convert_to_adjacency_weighted_def coo_vertices_def coo_order_def
  coo_offsets_def format_converter_def weight_type_def upt_rec upto.simps

section \<open>The claims\<close>

text \<open>
  C1 (as amended): a failed \<open>view_*\<close> or \<open>add_*\<close> leaves the handle exactly as it was
  when the failure is raised by a check that precedes every assignment. That covers each
  failure of \<open>view_as_edge_list\<close> whose edge data (if any) has the size of the source
  indices and whose index pairs pass the indexing check, each failure of
  \<open>view_as_adjacency_list\<close> whose edge data (if any) has the size of indices, each
  failure of \<open>add_adjacency_list\<close> other than \<open>ConversionFailure\<close>, and each failure of
  \<open>add_transposed_adjacency_list\<close> other than \<open>ConversionFailure\<close> on a handle that has
  an Edge List or has no Adjacency List to derive one from.
\<close>

theorem eager_failure_leaves_handle:
  "(failed (fst (gdf_edge_list_view ext g s d ed)) \<and>
    (\<forall>w. ed = Some w \<longrightarrow> size_col w = size_col s) \<and>
    indexing_check ext (data s) (data d) (size_col d) = GDF_SUCCESS \<longrightarrow>
      snd (gdf_edge_list_view ext g s d ed) = g) \<and>
   (failed (fst (gdf_adj_list_view g offs inds ed')) \<and>
    (\<forall>w. ed' = Some w \<longrightarrow> size_col w = size_col inds) \<longrightarrow>
      snd (gdf_adj_list_view g offs inds ed') = g) \<and>
   (failed (fst (gdf_add_adj_list ext g)) \<and>
    \<not> ConversionFailure (fst (gdf_add_adj_list ext g)) \<longrightarrow>
      snd (gdf_add_adj_list ext g) = g) \<and>
   (failed (fst (gdf_add_transposed_adj_list ext g)) \<and>
    \<not> ConversionFailure (fst (gdf_add_transposed_adj_list ext g)) \<and>
    (edgeList g \<noteq> None \<or> adjList g = None) \<longrightarrow>
      snd (gdf_add_transposed_adj_list ext g) = g)"
  by (intro conjI impI; (elim conjE)?)
     (erule (2) edge_view_failure_unchanged, erule (1) adj_view_failure_unchanged,
      erule (1) add_adj_list_failure_unchanged,
      erule (2) add_transposed_adj_list_failure_unchanged)

theorem eager_failure_leaves_handle_witness:
  "failed (fst (gdf_edge_list_view reference_externals
      (empty_graph\<lparr>edgeList := Some \<lparr>src_indices = int32_column [0, 0, 1],
         dest_indices = int32_column [1, 2, 2],
         edge_data = Some (weight_column GDF_INT32 [1, 2, 3])\<rparr>\<rparr> :: real gdf_graph)
      (int32_column [0]) (int32_column [1]) None)) \<and>
   snd (gdf_edge_list_view reference_externals
      (empty_graph\<lparr>edgeList := Some \<lparr>src_indices = int32_column [0, 0, 1],
         dest_indices = int32_column [1, 2, 2],
         edge_data = Some (weight_column GDF_INT32 [1, 2, 3])\<rparr>\<rparr> :: real gdf_graph)
      (int32_column [0]) (int32_column [1]) None) =
     empty_graph\<lparr>edgeList := Some \<lparr>src_indices = int32_column [0, 0, 1],
         dest_indices = int32_column [1, 2, 2],
         edge_data = Some (weight_column GDF_INT32 [1, 2, 3])\<rparr>\<rparr> \<and>
   snd (gdf_adj_list_view
      (empty_graph\<lparr>edgeList := Some \<lparr>src_indices = int32_column [0, 0, 1],
         dest_indices = int32_column [1, 2, 2],
         edge_data = Some (weight_column GDF_INT32 [1, 2, 3])\<rparr>\<rparr> :: real gdf_graph)
      (int32_column [0, 1]) (int32_column [0]) None) =
     empty_graph\<lparr>edgeList := Some \<lparr>src_indices = int32_column [0, 0, 1],
         dest_indices = int32_column [1, 2, 2],
         edge_data = Some (weight_column GDF_INT32 [1, 2, 3])\<rparr>\<rparr> \<and>
   failed (fst (gdf_add_adj_list reference_externals
      (empty_graph\<lparr>edgeList := Some \<lparr>src_indices = int32_column [0, 0, 1],
         dest_indices = int32_column [1, 2, 2],
         edge_data = Some (weight_column GDF_INT32 [1, 2, 3])\<rparr>\<rparr> :: real gdf_graph))) \<and>
   snd (gdf_add_adj_list reference_externals
      (empty_graph\<lparr>edgeList := Some \<lparr>src_indices = int32_column [0, 0, 1],
         dest_indices = int32_column [1, 2, 2],
         edge_data = Some (weight_column GDF_INT32 [1, 2, 3])\<rparr>\<rparr> :: real gdf_graph)) =
     empty_graph\<lparr>edgeList := Some \<lparr>src_indices = int32_column [0, 0, 1],
         dest_indices = int32_column [1, 2, 2],
         edge_data = Some (weight_column GDF_INT32 [1, 2, 3])\<rparr>\<rparr> \<and>
   snd (gdf_add_transposed_adj_list reference_externals
      (empty_graph\<lparr>edgeList := Some \<lparr>src_indices = int32_column [0, 0, 1],
         dest_indices = int32_column [1, 2, 2],
         edge_data = Some (weight_column GDF_INT32 [1, 2, 3])\<rparr>\<rparr> :: real gdf_graph)) =
     empty_graph\<lparr>edgeList := Some \<lparr>src_indices = int32_column [0, 0, 1],
         dest_indices = int32_column [1, 2, 2],
         edge_data = Some (weight_column GDF_INT32 [1, 2, 3])\<rparr>\<rparr>"
proof -
  let ?g = "empty_graph\<lparr>edgeList := Some \<lparr>src_indices = int32_column [0, 0, 1],
         dest_indices = int32_column [1, 2, 2],
         edge_data = Some (weight_column GDF_INT32 [1, 2, 3])\<rparr>\<rparr> :: real gdf_graph"
  have f1: "failed (fst (gdf_edge_list_view reference_externals ?g
      (int32_column [0]) (int32_column [1]) None))"
    by (simp add: gdf_edge_list_view_def failed_def)
  have f2: "failed (fst (gdf_adj_list_view ?g (int32_column [0, 1]) (int32_column [0]) None))"
    by (simp add: gdf_adj_list_view_def failed_def)
  have f3: "failed (fst (gdf_add_adj_list reference_externals ?g))"
    "\<not> ConversionFailure (fst (gdf_add_adj_list reference_externals ?g))"
    by (simp_all add: gdf_add_adj_list_def failed_def ConversionFailure_def empty_graph_def
        int32_column_def weight_column_def gdf_column_view_def)
  have f4: "failed (fst (gdf_add_transposed_adj_list reference_externals ?g))"
    "\<not> ConversionFailure (fst (gdf_add_transposed_adj_list reference_externals ?g))"
    by (simp_all add: gdf_add_transposed_adj_list_def failed_def ConversionFailure_def
        empty_graph_def int32_column_def weight_column_def gdf_column_view_def)
  have chk: "indexing_check (reference_externals :: real externals) (data (int32_column [0]))
      (data (int32_column [1])) (size_col (int32_column [1])) = GDF_SUCCESS"
    by (simp add: reference_externals_def)
  from eager_failure_leaves_handle
    [of reference_externals ?g "int32_column [0]" "int32_column [1]" None
        "int32_column [0, 1]" "int32_column [0]" None]
    f1 f2 f3 f4 chk
  show ?thesis by simp
qed

text \<open>
  C1 as stated does not hold. On an empty handle, a view whose edge data has two entries
  for one edge fails with the size mismatch after the index buffers were installed:
  \<open>view_as_edge_list\<close> leaves the Edge List in the handle and
  \<open>view_as_adjacency_list\<close> leaves the Adjacency List. On a handle that holds only an
  Adjacency List with int32 weights, \<open>add_transposed_adjacency_list\<close> fails with
  \<open>GDF_UNSUPPORTED_DTYPE\<close> after it derived the Edge List, which stays in the handle.
\<close>

theorem failed_view_keeps_partial_state:
  "failed (fst (gdf_edge_list_view reference_externals (empty_graph :: real gdf_graph)
      (int32_column [0]) (int32_column [1]) (Some (weight_column GDF_FLOAT32 [1, 2])))) \<and>
   snd (gdf_edge_list_view reference_externals (empty_graph :: real gdf_graph)
      (int32_column [0]) (int32_column [1]) (Some (weight_column GDF_FLOAT32 [1, 2]))) \<noteq>
     empty_graph \<and>
   edgeList (snd (gdf_edge_list_view reference_externals (empty_graph :: real gdf_graph)
      (int32_column [0]) (int32_column [1]) (Some (weight_column GDF_FLOAT32 [1, 2])))) =
     Some \<lparr>src_indices = int32_column [0], dest_indices = int32_column [1], edge_data = None\<rparr> \<and>
   failed (fst (gdf_adj_list_view (empty_graph :: real gdf_graph)
      (int32_column [0, 1]) (int32_column [0]) (Some (weight_column GDF_FLOAT32 [1, 2])))) \<and>
   adjList (snd (gdf_adj_list_view (empty_graph :: real gdf_graph)
      (int32_column [0, 1]) (int32_column [0]) (Some (weight_column GDF_FLOAT32 [1, 2])))) =
     Some \<lparr>offsets = int32_column [0, 1], indices = int32_column [0], edge_data_adj = None\<rparr> \<and>
   edgeList (snd (gdf_adj_list_view (empty_graph :: real gdf_graph)
      (int32_column [0, 1, 2]) (int32_column [1, 0]) (Some (weight_column GDF_INT32 [3, 4])))) =
     None \<and>
   fst (gdf_add_transposed_adj_list reference_externals
      (snd (gdf_adj_list_view (empty_graph :: real gdf_graph)
         (int32_column [0, 1, 2]) (int32_column [1, 0])
         (Some (weight_column GDF_INT32 [3, 4]))))) = Return GDF_UNSUPPORTED_DTYPE \<and>
   edgeList (snd (gdf_add_transposed_adj_list reference_externals
      (snd (gdf_adj_list_view (empty_graph :: real gdf_graph)
         (int32_column [0, 1, 2]) (int32_column [1, 0])
         (Some (weight_column GDF_INT32 [3, 4])))))) =
     Some \<lparr>src_indices = int32_column [0, 1], dest_indices = int32_column [1, 0],
           edge_data = Some (weight_column GDF_INT32 [3, 4])\<rparr>"
  by (simp add: failed_def eval_defs)

text \<open>
  C2 (as amended): for a handle holding an Edge List with int32 indices and edge
  weights, only the two floating-point kinds are dispatched. With float32 or float64
  weights neither \<open>add_adjacency_list\<close> nor \<open>add_transposed_adjacency_list\<close> fails with
  \<open>UnsupportedType\<close>, and when the list is not cached yet it is the result of the
  weighted Format Converter at that weight type, on \<open>(src, dest, weight)\<close> and on
  \<open>(dest, src, weight)\<close>. With weights of any other kind, the four integer kinds
  included, \<open>add_transposed_adjacency_list\<close> fails with \<open>UnsupportedType\<close>, and so does
  \<open>add_adjacency_list\<close> when no Adjacency List is cached; the handle is unchanged.
\<close>

theorem weighted_dispatch_is_float_only:
  assumes "edgeList g = Some e" and "edge_data e = Some w"
    and "dtype (src_indices e) = GDF_INT32" and "dtype (dest_indices e) = GDF_INT32"
  shows "(dtype w = GDF_FLOAT32 \<or> dtype w = GDF_FLOAT64 \<longrightarrow>
            \<not> UnsupportedType (fst (gdf_add_adj_list ext g)) \<and>
            \<not> UnsupportedType (fst (gdf_add_transposed_adj_list ext g)) \<and>
            (adjList g = None \<longrightarrow>
               adjList (snd (gdf_add_adj_list ext g)) =
                 Some (snd (format_converter ext (weight_type (Some w)) GDF_INT32
                              (data (src_indices e)) (data (dest_indices e)) (Some w)
                              (size_col (src_indices e))))) \<and>
            (transposedAdjList g = None \<longrightarrow>
               transposedAdjList (snd (gdf_add_transposed_adj_list ext g)) =
                 Some (snd (format_converter ext (weight_type (Some w)) GDF_INT32
                              (data (dest_indices e)) (data (src_indices e)) (Some w)
                              (size_col (src_indices e)))))) \<and>
         (dtype w \<noteq> GDF_FLOAT32 \<and> dtype w \<noteq> GDF_FLOAT64 \<longrightarrow>
            (adjList g = None \<longrightarrow>
               gdf_add_adj_list ext g = (Return GDF_UNSUPPORTED_DTYPE, g)) \<and>
            gdf_add_transposed_adj_list ext g = (Return GDF_UNSUPPORTED_DTYPE, g))"
proof (intro conjI impI)
  assume fl: "dtype w = GDF_FLOAT32 \<or> dtype w = GDF_FLOAT64"
  note a = add_adj_list_float [OF assms(1,2,3) fl, of ext]
  note t = add_transposed_adj_list_float [OF assms fl, of ext]
  show "\<not> UnsupportedType (fst (gdf_add_adj_list ext g))"
  proof (cases "adjList g")
    case None
    with a add_adj_list_impl_installs [OF None assms(1), of ext "weight_type (Some w)"]
    show ?thesis by (auto simp: UnsupportedType_def)
  next
    case (Some x)
    with a show ?thesis by (simp add: UnsupportedType_def)
  qed
  show "\<not> UnsupportedType (fst (gdf_add_transposed_adj_list ext g))"
  proof (cases "transposedAdjList g")
    case None
    with t add_transposed_adj_list_impl_installs [OF None assms(1), of ext "weight_type (Some w)"]
    show ?thesis by (auto simp: UnsupportedType_def)
  next
    case (Some x)
    with t show ?thesis by (simp add: UnsupportedType_def add_transposed_adj_list_impl_cached)
  qed
  show "adjList (snd (gdf_add_adj_list ext g)) =
      Some (snd (format_converter ext (weight_type (Some w)) GDF_INT32
                   (data (src_indices e)) (data (dest_indices e)) (Some w)
                   (size_col (src_indices e))))" if "adjList g = None"
    using that a add_adj_list_impl_installs [OF that assms(1), of ext "weight_type (Some w)"]
      assms(2,3)
    by simp
  show "transposedAdjList (snd (gdf_add_transposed_adj_list ext g)) =
      Some (snd (format_converter ext (weight_type (Some w)) GDF_INT32
                   (data (dest_indices e)) (data (src_indices e)) (Some w)
                   (size_col (src_indices e))))" if "transposedAdjList g = None"
    using that t
      add_transposed_adj_list_impl_installs [OF that assms(1), of ext "weight_type (Some w)"]
      assms(2,3)
    by simp
next
  assume nf: "dtype w \<noteq> GDF_FLOAT32 \<and> dtype w \<noteq> GDF_FLOAT64"
  with assms show "gdf_add_adj_list ext g = (Return GDF_UNSUPPORTED_DTYPE, g)"
    if "adjList g = None"
    using that by (cases "dtype w") (simp_all add: gdf_add_adj_list_def)
  from nf assms show "gdf_add_transposed_adj_list ext g = (Return GDF_UNSUPPORTED_DTYPE, g)"
    by (cases "dtype w") (simp_all add: gdf_add_transposed_adj_list_def)
qed

theorem weighted_dispatch_is_float_only_witness:
  "\<not> UnsupportedType (fst (gdf_add_adj_list reference_externals
      (empty_graph\<lparr>edgeList := Some \<lparr>src_indices = int32_column [1, 0, 0],
         dest_indices = int32_column [0, 2, 1],
         edge_data = Some (weight_column GDF_FLOAT32 [5, 6, 7])\<rparr>\<rparr> :: real gdf_graph))) \<and>
   adjList (snd (gdf_add_adj_list reference_externals
      (empty_graph\<lparr>edgeList := Some \<lparr>src_indices = int32_column [1, 0, 0],
         dest_indices = int32_column [0, 2, 1],
         edge_data = Some (weight_column GDF_FLOAT32 [5, 6, 7])\<rparr>\<rparr> :: real gdf_graph))) =
     Some \<lparr>offsets = int32_column [0, 2, 3, 3], indices = int32_column [2, 1, 0],
           edge_data_adj = Some (weight_column GDF_FLOAT32 [6, 7, 5])\<rparr> \<and>
   transposedAdjList (snd (gdf_add_transposed_adj_list reference_externals
      (empty_graph\<lparr>edgeList := Some \<lparr>src_indices = int32_column [1, 0, 0],
         dest_indices = int32_column [0, 2, 1],
         edge_data = Some (weight_column GDF_FLOAT32 [5, 6, 7])\<rparr>\<rparr> :: real gdf_graph))) =
     Some \<lparr>offsets = int32_column [0, 1, 2, 3], indices = int32_column [1, 0, 0],
           edge_data_adj = Some (weight_column GDF_FLOAT32 [5, 7, 6])\<rparr> \<and>
   gdf_add_adj_list reference_externals
      (empty_graph\<lparr>edgeList := Some \<lparr>src_indices = int32_column [1, 0, 0],
         dest_indices = int32_column [0, 2, 1],
         edge_data = Some (weight_column GDF_INT64 [5, 6, 7])\<rparr>\<rparr> :: real gdf_graph) =
     (Return GDF_UNSUPPORTED_DTYPE,
      empty_graph\<lparr>edgeList := Some \<lparr>src_indices = int32_column [1, 0, 0],
         dest_indices = int32_column [0, 2, 1],
         edge_data = Some (weight_column GDF_INT64 [5, 6, 7])\<rparr>\<rparr>)"
proof -
  have conv: "snd (format_converter (reference_externals :: real externals) Float GDF_INT32
      [1, 0, 0] [0, 2, 1] (Some (weight_column GDF_FLOAT32 [5, 6, 7])) 3) =
      \<lparr>offsets = int32_column [0, 2, 3, 3], indices = int32_column [2, 1, 0],
        edge_data_adj = Some (weight_column GDF_FLOAT32 [6, 7, 5])\<rparr>"
    by (simp add: eval_defs)
  have convT: "snd (format_converter (reference_externals :: real externals) Float GDF_INT32
      [0, 2, 1] [1, 0, 0] (Some (weight_column GDF_FLOAT32 [5, 6, 7])) 3) =
      \<lparr>offsets = int32_column [0, 1, 2, 3], indices = int32_column [1, 0, 0],
        edge_data_adj = Some (weight_column GDF_FLOAT32 [5, 7, 6])\<rparr>"
    by (simp add: eval_defs)
  from conv convT
    weighted_dispatch_is_float_only
      [of "empty_graph\<lparr>edgeList := Some \<lparr>src_indices = int32_column [1, 0, 0],
             dest_indices = int32_column [0, 2, 1],
             edge_data = Some (weight_column GDF_FLOAT32 [5, 6, 7])\<rparr>\<rparr> :: real gdf_graph"
          "\<lparr>src_indices = int32_column [1, 0, 0], dest_indices = int32_column [0, 2, 1],
             edge_data = Some (weight_column GDF_FLOAT32 [5, 6, 7])\<rparr>"
          "weight_column GDF_FLOAT32 [5, 6, 7]" reference_externals]
    weighted_dispatch_is_float_only
      [of "empty_graph\<lparr>edgeList := Some \<lparr>src_indices = int32_column [1, 0, 0],
             dest_indices = int32_column [0, 2, 1],
             edge_data = Some (weight_column GDF_INT64 [5, 6, 7])\<rparr>\<rparr> :: real gdf_graph"
          "\<lparr>src_indices = int32_column [1, 0, 0], dest_indices = int32_column [0, 2, 1],
             edge_data = Some (weight_column GDF_INT64 [5, 6, 7])\<rparr>"
          "weight_column GDF_INT64 [5, 6, 7]" reference_externals]
  show ?thesis
    by (simp add: empty_graph_def int32_column_def weight_column_def gdf_column_view_def
        weight_type_def)
qed

text \<open>
  C2 as stated does not hold: with int32 edge weights, one of the six kinds, both
  \<open>add_adjacency_list\<close> and \<open>add_transposed_adjacency_list\<close> fail with
  \<open>UnsupportedType\<close>.
\<close>

theorem int32_weights_are_unsupported:
  "UnsupportedType (fst (gdf_add_adj_list reference_externals
      (empty_graph\<lparr>edgeList := Some \<lparr>src_indices = int32_column [0, 0, 1],
         dest_indices = int32_column [1, 2, 2],
         edge_data = Some (weight_column GDF_INT32 [1, 2, 3])\<rparr>\<rparr> :: int gdf_graph))) \<and>
   UnsupportedType (fst (gdf_add_transposed_adj_list reference_externals
      (empty_graph\<lparr>edgeList := Some \<lparr>src_indices = int32_column [0, 0, 1],
         dest_indices = int32_column [1, 2, 2],
         edge_data = Some (weight_column GDF_INT32 [1, 2, 3])\<rparr>\<rparr> :: int gdf_graph)))"
  by (simp add: gdf_add_adj_list_def gdf_add_transposed_adj_list_def UnsupportedType_def
      empty_graph_def int32_column_def weight_column_def gdf_column_view_def)

text \<open>
  C3 (as amended): a view call on an empty handle whose edge data has a kind outside the
  six, the other preconditions being met, is not rejected for the kind:
  \<open>view_as_adjacency_list\<close> succeeds and \<open>view_as_edge_list\<close> returns the status of
  the indexing check. Both install the edge data and record
  \<open>has_negative_edges = false\<close> whatever the buffer \<open>xs\<close> holds.
\<close>

theorem view_accepts_other_weight_kinds:
  assumes "no_representation g" and "dtype w = GDF_OTHER_DTYPE k"
  shows "(null_count offs = 0 \<and> null_count inds = 0 \<and> dtype offs = GDF_INT32 \<and>
          dtype inds = GDF_INT32 \<and> 0 < size_col offs \<and> size_col w = size_col inds \<longrightarrow>
            fst (gdf_adj_list_view g offs inds (Some (w\<lparr>data := xs\<rparr>))) = Return GDF_SUCCESS \<and>
            map_option edge_data_adj
              (adjList (snd (gdf_adj_list_view g offs inds (Some (w\<lparr>data := xs\<rparr>))))) =
              Some (Some (cpy_column_view (w\<lparr>data := xs\<rparr>))) \<and>
            negative_edges (snd (gdf_adj_list_view g offs inds (Some (w\<lparr>data := xs\<rparr>)))) =
              Some GDF_PROP_FALSE) \<and>
         (size_col s = size_col d \<and> dtype s = GDF_INT32 \<and> dtype d = GDF_INT32 \<and>
          0 < size_col s \<and> null_count s = 0 \<and> null_count d = 0 \<and>
          size_col w = size_col s \<longrightarrow>
            fst (gdf_edge_list_view ext g s d (Some (w\<lparr>data := xs\<rparr>))) =
              Return (indexing_check ext (data s) (data d) (size_col d)) \<and>
            map_option edge_data
              (edgeList (snd (gdf_edge_list_view ext g s d (Some (w\<lparr>data := xs\<rparr>))))) =
              Some (Some (cpy_column_view (w\<lparr>data := xs\<rparr>))) \<and>
            negative_edges (snd (gdf_edge_list_view ext g s d (Some (w\<lparr>data := xs\<rparr>)))) =
              Some GDF_PROP_FALSE)"
proof (intro conjI impI)
  assume a: "null_count offs = 0 \<and> null_count inds = 0 \<and> dtype offs = GDF_INT32 \<and>
          dtype inds = GDF_INT32 \<and> 0 < size_col offs \<and> size_col w = size_col inds"
  with assms(1)
    adj_view_accepts [of g offs inds "Some (w\<lparr>data := xs\<rparr>)"]
  show "fst (gdf_adj_list_view g offs inds (Some (w\<lparr>data := xs\<rparr>))) = Return GDF_SUCCESS"
    and "map_option edge_data_adj
              (adjList (snd (gdf_adj_list_view g offs inds (Some (w\<lparr>data := xs\<rparr>))))) =
              Some (Some (cpy_column_view (w\<lparr>data := xs\<rparr>)))"
    by simp_all
  from a assms show "negative_edges (snd (gdf_adj_list_view g offs inds (Some (w\<lparr>data := xs\<rparr>)))) =
              Some GDF_PROP_FALSE"
    by (intro adj_view_other_kind [where k = k]) simp_all
next
  assume a: "size_col s = size_col d \<and> dtype s = GDF_INT32 \<and> dtype d = GDF_INT32 \<and>
          0 < size_col s \<and> null_count s = 0 \<and> null_count d = 0 \<and>
          size_col w = size_col s"
  with assms(1)
    edge_view_accepts [of g s d "Some (w\<lparr>data := xs\<rparr>)" ext]
  show "fst (gdf_edge_list_view ext g s d (Some (w\<lparr>data := xs\<rparr>))) =
              Return (indexing_check ext (data s) (data d) (size_col d))"
    and "map_option edge_data
              (edgeList (snd (gdf_edge_list_view ext g s d (Some (w\<lparr>data := xs\<rparr>))))) =
              Some (Some (cpy_column_view (w\<lparr>data := xs\<rparr>)))"
    by simp_all
  from a assms show "negative_edges (snd (gdf_edge_list_view ext g s d (Some (w\<lparr>data := xs\<rparr>)))) =
              Some GDF_PROP_FALSE"
    by (intro edge_view_other_kind [where k = k]) simp_all
qed

theorem view_accepts_other_weight_kinds_witness:
  "fst (gdf_adj_list_view (empty_graph :: real gdf_graph) (int32_column [0, 1, 2])
      (int32_column [1, 0]) (Some (weight_column (GDF_OTHER_DTYPE 0) [0, 0]\<lparr>data := [- 1, 2]\<rparr>))) =
     Return GDF_SUCCESS \<and>
   negative_edges (snd (gdf_adj_list_view (empty_graph :: real gdf_graph)
      (int32_column [0, 1, 2]) (int32_column [1, 0])
      (Some (weight_column (GDF_OTHER_DTYPE 0) [0, 0]\<lparr>data := [- 1, 2]\<rparr>)))) =
     Some GDF_PROP_FALSE \<and>
   fst (gdf_edge_list_view reference_externals (empty_graph :: real gdf_graph)
      (int32_column [0, 1]) (int32_column [1, 0])
      (Some (weight_column (GDF_OTHER_DTYPE 0) [0, 0]\<lparr>data := [- 1, 2]\<rparr>))) =
     Return GDF_SUCCESS \<and>
   negative_edges (snd (gdf_edge_list_view reference_externals (empty_graph :: real gdf_graph)
      (int32_column [0, 1]) (int32_column [1, 0])
      (Some (weight_column (GDF_OTHER_DTYPE 0) [0, 0]\<lparr>data := [- 1, 2]\<rparr>)))) =
     Some GDF_PROP_FALSE"
  using view_accepts_other_weight_kinds
    [of "empty_graph :: real gdf_graph" "weight_column (GDF_OTHER_DTYPE 0) [0, 0]" 0
        "int32_column [0, 1, 2]" "int32_column [1, 0]" "[- 1, 2]"
        "int32_column [0, 1]" "int32_column [1, 0]" reference_externals]
  by (simp add: empty_graph_def no_representation_def int32_column_def weight_column_def
      gdf_column_view_def reference_externals_def)

text \<open>
  C3 as stated does not hold: \<open>view_as_adjacency_list\<close> with edge data \<open>[-1, 2]\<close> of a
  kind outside the six succeeds, and records \<open>has_negative_edges = false\<close>.
\<close>

theorem other_weight_kind_is_accepted:
  "fst (gdf_adj_list_view (empty_graph :: real gdf_graph) (int32_column [0, 1, 2])
      (int32_column [1, 0]) (Some (weight_column (GDF_OTHER_DTYPE 0) [- 1, 2]))) =
     Return GDF_SUCCESS \<and>
   \<not> UnsupportedType (fst (gdf_adj_list_view (empty_graph :: real gdf_graph)
      (int32_column [0, 1, 2]) (int32_column [1, 0])
      (Some (weight_column (GDF_OTHER_DTYPE 0) [- 1, 2])))) \<and>
   negative_edges (snd (gdf_adj_list_view (empty_graph :: real gdf_graph)
      (int32_column [0, 1, 2]) (int32_column [1, 0])
      (Some (weight_column (GDF_OTHER_DTYPE 0) [- 1, 2])))) = Some GDF_PROP_FALSE"
  by (simp add: gdf_adj_list_view_def UnsupportedType_def empty_graph_def
      int32_column_def weight_column_def view_defs Let_def)




text \<open>
  C5: on a handle that holds neither an Edge List nor an Adjacency List,
  \<open>add_transposed_adjacency_list\<close> fails with \<open>InvalidState\<close>: the failure raised while
  deriving the Edge List passes through the caller, which never reaches the conversion,
  and the handle is left as it was.
\<close>

theorem transposed_without_source_is_invalid_state:
  assumes "edgeList g = None" and "adjList g = None"
  shows "InvalidState (fst (gdf_add_transposed_adj_list ext g)) \<and>
         snd (gdf_add_transposed_adj_list ext g) = g"
  using assms
  by (simp add: gdf_add_transposed_adj_list_def add_edge_list_no_source InvalidState_def)

theorem transposed_without_source_is_invalid_state_witness:
  "InvalidState (fst (gdf_add_transposed_adj_list reference_externals
                        (empty_graph :: real gdf_graph))) \<and>
   snd (gdf_add_transposed_adj_list reference_externals (empty_graph :: real gdf_graph)) =
     empty_graph"
  using transposed_without_source_is_invalid_state
          [of "empty_graph :: real gdf_graph" reference_externals]
  by (simp add: empty_graph_def)

text \<open>
  C6 (as amended): \<open>number_of_vertices\<close> leaves a non-zero cached count as it is. With
  a zero count it fails with \<open>InvalidState\<close> when there is no Edge List and with
  \<open>UnsupportedType\<close> when the index type is not int32; otherwise it succeeds and caches
  one plus the larger of two maxima, in 32-bit signed arithmetic, each maximum being the
  reduction of the first \<open>src_indices.size\<close> entries of an index buffer from the lowest
  int32 value. For index arrays of the data model that are non-empty and of equal size,
  the reductions are the maxima over the full arrays, and when the largest index is below
  \<open>2^31 - 1\<close> the cached value is \<open>1 + max (max src_indices) (max dest_indices)\<close>.
\<close>

theorem number_of_vertices_reduction:
  "(numberOfVertices g \<noteq> 0 \<longrightarrow> gdf_number_of_vertices g = (Return GDF_SUCCESS, g)) \<and>
   (numberOfVertices g = 0 \<and> edgeList g = None \<longrightarrow>
      InvalidState (fst (gdf_number_of_vertices g)) \<and> snd (gdf_number_of_vertices g) = g) \<and>
   (numberOfVertices g = 0 \<and> edgeList g = Some e \<and> dtype (src_indices e) \<noteq> GDF_INT32 \<longrightarrow>
      UnsupportedType (fst (gdf_number_of_vertices g)) \<and> snd (gdf_number_of_vertices g) = g) \<and>
   (numberOfVertices g = 0 \<and> edgeList g = Some e \<and> dtype (src_indices e) = GDF_INT32 \<longrightarrow>
      gdf_number_of_vertices g =
        (Return GDF_SUCCESS,
         g\<lparr>numberOfVertices :=
             int32_wrap
               (1 + max (DeviceReduce_Max (data (src_indices e)) (size_col (src_indices e)))
                        (DeviceReduce_Max (data (dest_indices e))
                           (size_col (src_indices e))))\<rparr>)) \<and>
   (numberOfVertices g = 0 \<and> edgeList g = Some e \<and> dtype (src_indices e) = GDF_INT32 \<and>
    int32_buffer (src_indices e) \<and> int32_buffer (dest_indices e) \<and>
    size_col (src_indices e) = size_col (dest_indices e) \<and> 0 < size_col (src_indices e) \<longrightarrow>
      gdf_number_of_vertices g =
        (Return GDF_SUCCESS,
         g\<lparr>numberOfVertices :=
             int32_wrap (1 + max (Max (set (data (src_indices e))))
                                 (Max (set (data (dest_indices e)))))\<rparr>) \<and>
      (max (Max (set (data (src_indices e)))) (Max (set (data (dest_indices e)))) < 2 ^ 31 - 1 \<longrightarrow>
         numberOfVertices (snd (gdf_number_of_vertices g)) =
           1 + max (Max (set (data (src_indices e)))) (Max (set (data (dest_indices e))))))"
proof (intro conjI impI)
  show "gdf_number_of_vertices g = (Return GDF_SUCCESS, g)" if "numberOfVertices g \<noteq> 0"
    using that by (simp add: gdf_number_of_vertices_def)
next
  assume "numberOfVertices g = 0 \<and> edgeList g = None"
  then show "InvalidState (fst (gdf_number_of_vertices g))"
    and "snd (gdf_number_of_vertices g) = g"
    by (simp_all add: gdf_number_of_vertices_def InvalidState_def)
next
  assume "numberOfVertices g = 0 \<and> edgeList g = Some e \<and> dtype (src_indices e) \<noteq> GDF_INT32"
  then show "UnsupportedType (fst (gdf_number_of_vertices g))"
    and "snd (gdf_number_of_vertices g) = g"
    by (simp_all add: gdf_number_of_vertices_def UnsupportedType_def)
next
  assume "numberOfVertices g = 0 \<and> edgeList g = Some e \<and> dtype (src_indices e) = GDF_INT32"
  then show "gdf_number_of_vertices g =
        (Return GDF_SUCCESS,
         g\<lparr>numberOfVertices :=
             int32_wrap
               (1 + max (DeviceReduce_Max (data (src_indices e)) (size_col (src_indices e)))
                        (DeviceReduce_Max (data (dest_indices e))
                           (size_col (src_indices e))))\<rparr>)"
    by (simp add: gdf_number_of_vertices_def Let_def)
next
  assume h: "numberOfVertices g = 0 \<and> edgeList g = Some e \<and> dtype (src_indices e) = GDF_INT32 \<and>
    int32_buffer (src_indices e) \<and> int32_buffer (dest_indices e) \<and>
    size_col (src_indices e) = size_col (dest_indices e) \<and> 0 < size_col (src_indices e)"
  then have bs: "int32_buffer (src_indices e)" and ps: "0 < size_col (src_indices e)"
    and bd: "int32_buffer (dest_indices e)"
    and sz: "size_col (src_indices e) = size_col (dest_indices e)"
    by simp_all
  from bs ps have src: "DeviceReduce_Max (data (src_indices e)) (size_col (src_indices e)) =
      Max (set (data (src_indices e)))"
    by (rule DeviceReduce_Max_full)
  from ps sz have "0 < size_col (dest_indices e)" by simp
  with bd have "DeviceReduce_Max (data (dest_indices e)) (size_col (dest_indices e)) =
      Max (set (data (dest_indices e)))"
    by (rule DeviceReduce_Max_full)
  with sz have dst: "DeviceReduce_Max (data (dest_indices e)) (size_col (src_indices e)) =
      Max (set (data (dest_indices e)))"
    by simp
  from h src dst show eq: "gdf_number_of_vertices g =
        (Return GDF_SUCCESS,
         g\<lparr>numberOfVertices :=
             int32_wrap (1 + max (Max (set (data (src_indices e))))
                                 (Max (set (data (dest_indices e)))))\<rparr>)"
    by (simp add: gdf_number_of_vertices_def Let_def)
  assume bound: "max (Max (set (data (src_indices e)))) (Max (set (data (dest_indices e))))
      < 2 ^ 31 - 1"
  from h have "- (2 ^ 31) \<le> Max (set (data (src_indices e)))"
    using int32_buffer_Max_bounds [of "src_indices e"] by simp
  then have "- (2 ^ 31) \<le>
      1 + max (Max (set (data (src_indices e)))) (Max (set (data (dest_indices e))))"
    by simp
  with bound have "int32_wrap (1 + max (Max (set (data (src_indices e))))
      (Max (set (data (dest_indices e))))) =
      1 + max (Max (set (data (src_indices e)))) (Max (set (data (dest_indices e))))"
    by (intro int32_wrap_in_range) simp_all
  with eq show "numberOfVertices (snd (gdf_number_of_vertices g)) =
      1 + max (Max (set (data (src_indices e)))) (Max (set (data (dest_indices e))))"
    by simp
qed

theorem number_of_vertices_reduction_witness:
  "gdf_number_of_vertices (empty_graph\<lparr>numberOfVertices := 5\<rparr> :: real gdf_graph) =
     (Return GDF_SUCCESS, empty_graph\<lparr>numberOfVertices := 5\<rparr>) \<and>
   InvalidState (fst (gdf_number_of_vertices (empty_graph :: real gdf_graph))) \<and>
   snd (gdf_number_of_vertices (empty_graph :: real gdf_graph)) = empty_graph \<and>
   UnsupportedType (fst (gdf_number_of_vertices
     (empty_graph\<lparr>edgeList := Some \<lparr>src_indices = gdf_column_view [0, 0, 1] None 3 GDF_INT64,
        dest_indices = gdf_column_view [1, 2, 2] None 3 GDF_INT64,
        edge_data = None\<rparr>\<rparr> :: real gdf_graph))) \<and>
   gdf_number_of_vertices
     (empty_graph\<lparr>edgeList := Some \<lparr>src_indices = int32_column [0, 0, 1],
        dest_indices = int32_column [1, 2, 2], edge_data = None\<rparr>\<rparr> :: real gdf_graph) =
     (Return GDF_SUCCESS,
      empty_graph\<lparr>edgeList := Some \<lparr>src_indices = int32_column [0, 0, 1],
        dest_indices = int32_column [1, 2, 2], edge_data = None\<rparr>,
        numberOfVertices := 3\<rparr>)"
  using number_of_vertices_reduction [of "empty_graph\<lparr>numberOfVertices := 5\<rparr> :: real gdf_graph"]
    number_of_vertices_reduction [of "empty_graph :: real gdf_graph"]
    number_of_vertices_reduction
      [of "empty_graph\<lparr>edgeList := Some \<lparr>src_indices = gdf_column_view [0, 0, 1] None 3 GDF_INT64,
             dest_indices = gdf_column_view [1, 2, 2] None 3 GDF_INT64,
             edge_data = None\<rparr>\<rparr> :: real gdf_graph"
          "\<lparr>src_indices = gdf_column_view [0, 0, 1] None 3 GDF_INT64,
             dest_indices = gdf_column_view [1, 2, 2] None 3 GDF_INT64,
             edge_data = None\<rparr>"]
    number_of_vertices_reduction
      [of "empty_graph\<lparr>edgeList := Some \<lparr>src_indices = int32_column [0, 0, 1],
             dest_indices = int32_column [1, 2, 2], edge_data = None\<rparr>\<rparr> :: real gdf_graph"
          "\<lparr>src_indices = int32_column [0, 0, 1],
             dest_indices = int32_column [1, 2, 2], edge_data = None\<rparr>"]
  by (simp add: empty_graph_def int32_column_def gdf_column_view_def int32_buffer_def
      int32_wrap_def DeviceReduce_Max_def INT32_LOWEST_def)

text \<open>
  C6 as stated does not hold for every handle. After \<open>view_as_edge_list\<close> with source
  indices \<open>[2147483647]\<close> and destination indices \<open>[0]\<close>, \<open>number_of_vertices\<close> succeeds
  and caches \<open>-2147483648\<close>, not \<open>1 + 2147483647\<close>. After \<open>view_as_adjacency_list\<close> with
  the offsets \<open>[0]\<close> and no indices, followed by \<open>add_edge_list\<close>, the Edge List is empty
  and \<open>number_of_vertices\<close> succeeds and caches \<open>-2147483647\<close>.
\<close>

theorem vertex_count_is_not_one_plus_maximum:
  "edgeList (snd (gdf_edge_list_view reference_externals (empty_graph :: real gdf_graph)
      (int32_column [2147483647]) (int32_column [0]) None)) =
     Some \<lparr>src_indices = int32_column [2147483647], dest_indices = int32_column [0],
           edge_data = None\<rparr> \<and>
   fst (gdf_number_of_vertices (snd (gdf_edge_list_view reference_externals
      (empty_graph :: real gdf_graph) (int32_column [2147483647]) (int32_column [0]) None))) =
     Return GDF_SUCCESS \<and>
   numberOfVertices (snd (gdf_number_of_vertices (snd (gdf_edge_list_view reference_externals
      (empty_graph :: real gdf_graph) (int32_column [2147483647]) (int32_column [0]) None)))) =
     - 2147483648 \<and>
   1 + max (Max (set [2147483647 :: int])) (Max (set [0])) = 2147483648 \<and>
   edgeList (snd (gdf_add_edge_list reference_externals (snd (gdf_adj_list_view
      (empty_graph :: real gdf_graph) (int32_column [0]) (int32_column []) None)))) =
     Some \<lparr>src_indices = int32_column [], dest_indices = int32_column [],
           edge_data = None\<rparr> \<and>
   fst (gdf_number_of_vertices (snd (gdf_add_edge_list reference_externals
      (snd (gdf_adj_list_view (empty_graph :: real gdf_graph) (int32_column [0])
         (int32_column []) None))))) = Return GDF_SUCCESS \<and>
   numberOfVertices (snd (gdf_number_of_vertices (snd (gdf_add_edge_list reference_externals
      (snd (gdf_adj_list_view (empty_graph :: real gdf_graph) (int32_column [0])
         (int32_column []) None)))))) = - 2147483647"
  by (simp add: gdf_number_of_vertices_def DeviceReduce_Max_def INT32_LOWEST_def
      int32_wrap_def eval_defs)

text \<open>
  C7: on a fresh handle, \<open>view_as_adjacency_list\<close> with offsets \<open>[0,1,1,2]\<close>, indices
  \<open>[2,0]\<close> and no edge data succeeds with \<open>numberOfVertices = 3\<close> and
  \<open>has_negative_edges = false\<close>; \<open>add_edge_list\<close> then succeeds with source indices
  \<open>[0,2]\<close>, whatever the fresh source buffer held, and with destination indices that are
  the shallow view of indices, \<open>[2,0]\<close>.
\<close>

theorem adjacency_view_scenario:
  "fst (gdf_adj_list_view (empty_graph :: ('w::{zero,ord}) gdf_graph)
          (int32_column [0, 1, 1, 2]) (int32_column [2, 0]) None) = Return GDF_SUCCESS \<and>
   numberOfVertices (snd (gdf_adj_list_view (empty_graph :: 'w gdf_graph)
          (int32_column [0, 1, 1, 2]) (int32_column [2, 0]) None)) = 3 \<and>
   negative_edges (snd (gdf_adj_list_view (empty_graph :: 'w gdf_graph)
          (int32_column [0, 1, 1, 2]) (int32_column [2, 0]) None)) = Some GDF_PROP_FALSE \<and>
   fst (gdf_add_edge_list ext (snd (gdf_adj_list_view (empty_graph :: 'w gdf_graph)
          (int32_column [0, 1, 1, 2]) (int32_column [2, 0]) None))) = Return GDF_SUCCESS \<and>
   map_option (\<lambda>e. data (src_indices e))
     (edgeList (snd (gdf_add_edge_list ext (snd (gdf_adj_list_view (empty_graph :: 'w gdf_graph)
          (int32_column [0, 1, 1, 2]) (int32_column [2, 0]) None))))) = Some [0, 2] \<and>
   map_option dest_indices
     (edgeList (snd (gdf_add_edge_list ext (snd (gdf_adj_list_view (empty_graph :: 'w gdf_graph)
          (int32_column [0, 1, 1, 2]) (int32_column [2, 0]) None))))) =
     Some (cpy_column_view (int32_column [2, 0])) \<and>
   data (cpy_column_view (int32_column [2, 0])) = [2, 0]"
  by (simp add: gdf_adj_list_view_def gdf_add_edge_list_def empty_graph_def int32_column_def
      view_defs Let_def offsets_to_indices_def fill_range_def upt_rec upto.simps)

theorem adjacency_view_scenario_witness:
  "map_option (\<lambda>e. (data (src_indices e), data (dest_indices e)))
     (edgeList (snd (gdf_add_edge_list reference_externals
        (snd (gdf_adj_list_view (empty_graph :: real gdf_graph)
          (int32_column [0, 1, 1, 2]) (int32_column [2, 0]) None))))) = Some ([0, 2], [2, 0])"
  using adjacency_view_scenario [where 'w = real, of reference_externals]
  by (auto simp: option.map_comp comp_def elim!: map_option_eq_Some[THEN iffD1, elim_format])

text \<open>
  C8 (as amended): whenever \<open>add_transposed_adjacency_list\<close> succeeds, the handle holds
  an Edge List \<open>e\<close>: the one it held before, or, when it held none, the one derived from
  its Adjacency List. On a handle that held no transposed list before the call, the
  transposed list is the Format Converter's result on \<open>(dest, src[, weight])\<close> of \<open>e\<close>,
  with status zero; a transposed list that was already cached is kept as it is.
\<close>

theorem transposed_is_swapped_conversion:
  assumes "fst (gdf_add_transposed_adj_list ext g) = Return GDF_SUCCESS"
  shows "\<exists>e. edgeList (snd (gdf_add_transposed_adj_list ext g)) = Some e \<and>
           (edgeList g = None \<longrightarrow>
              adjList g \<noteq> None \<and> edgeList (snd (gdf_add_edge_list ext g)) = Some e) \<and>
           (edgeList g \<noteq> None \<longrightarrow> edgeList g = Some e) \<and>
           (transposedAdjList g = None \<longrightarrow>
              fst (format_converter ext (weight_type (edge_data e)) (dtype (src_indices e))
                     (data (dest_indices e)) (data (src_indices e)) (edge_data e)
                     (size_col (src_indices e))) = 0 \<and>
              transposedAdjList (snd (gdf_add_transposed_adj_list ext g)) =
                Some (snd (format_converter ext (weight_type (edge_data e))
                             (dtype (src_indices e)) (data (dest_indices e))
                             (data (src_indices e)) (edge_data e) (size_col (src_indices e))))) \<and>
           (transposedAdjList g \<noteq> None \<longrightarrow>
              transposedAdjList (snd (gdf_add_transposed_adj_list ext g)) = transposedAdjList g)"
proof (cases "edgeList g")
  case (Some e)
  with assms have eq: "gdf_add_transposed_adj_list ext g =
      gdf_add_transposed_adj_list_impl ext (weight_type (edge_data e)) g"
    by (intro add_transposed_adj_list_dispatch)
  with assms have "fst (gdf_add_transposed_adj_list_impl ext (weight_type (edge_data e)) g) =
      Return GDF_SUCCESS"
    by simp
  from add_transposed_adj_list_impl_success [OF this Some] eq Some show ?thesis
    by simp
next
  case None
  show ?thesis
  proof (cases "adjList g")
    case no_adj: None
    with None assms show ?thesis
      by (simp add: gdf_add_transposed_adj_list_def add_edge_list_no_source)
  next
    case (Some a)
    let ?g1 = "snd (gdf_add_edge_list ext g)"
    from add_edge_list_derives [OF None Some, of ext]
    obtain e where e: "edgeList ?g1 = Some e"
      and t: "transposedAdjList ?g1 = transposedAdjList g"
      by blast
    have step: "gdf_add_transposed_adj_list ext g = gdf_add_transposed_adj_list ext ?g1"
      using None Some by (rule add_transposed_adj_list_after_derivation)
    with assms have ok: "fst (gdf_add_transposed_adj_list ext ?g1) = Return GDF_SUCCESS"
      by simp
    with e have eq: "gdf_add_transposed_adj_list ext ?g1 =
        gdf_add_transposed_adj_list_impl ext (weight_type (edge_data e)) ?g1"
      by (intro add_transposed_adj_list_dispatch)
    with ok have "fst (gdf_add_transposed_adj_list_impl ext (weight_type (edge_data e)) ?g1) =
        Return GDF_SUCCESS"
      by simp
    from add_transposed_adj_list_impl_success [OF this e] eq step e t None Some show ?thesis
      by simp
  qed
qed

theorem transposed_is_swapped_conversion_witness:
  "fst (gdf_add_transposed_adj_list reference_externals
      (snd (gdf_adj_list_view (empty_graph :: real gdf_graph)
         (int32_column [0, 2, 2, 3]) (int32_column [1, 2, 0]) None))) = Return GDF_SUCCESS \<and>
   map_option (\<lambda>e. (data (src_indices e), data (dest_indices e)))
     (edgeList (snd (gdf_add_transposed_adj_list reference_externals
        (snd (gdf_adj_list_view (empty_graph :: real gdf_graph)
           (int32_column [0, 2, 2, 3]) (int32_column [1, 2, 0]) None))))) =
     Some ([0, 0, 2], [1, 2, 0]) \<and>
   map_option (\<lambda>t. (data (offsets t), data (indices t)))
     (transposedAdjList (snd (gdf_add_transposed_adj_list reference_externals
        (snd (gdf_adj_list_view (empty_graph :: real gdf_graph)
           (int32_column [0, 2, 2, 3]) (int32_column [1, 2, 0]) None))))) =
     Some ([0, 1, 2, 3], [2, 0, 0])"
proof -
  let ?g = "snd (gdf_adj_list_view (empty_graph :: real gdf_graph)
         (int32_column [0, 2, 2, 3]) (int32_column [1, 2, 0]) None)"
  have ok: "fst (gdf_add_transposed_adj_list reference_externals ?g) = Return GDF_SUCCESS"
    by (simp add: eval_defs)
  have none: "edgeList ?g = None" "transposedAdjList ?g = None"
    by (simp_all add: eval_defs)
  have derived: "edgeList (snd (gdf_add_edge_list reference_externals ?g)) =
      Some \<lparr>src_indices = int32_column [0, 0, 2], dest_indices = int32_column [1, 2, 0],
            edge_data = None\<rparr>"
    by (simp add: eval_defs)
  have conv: "snd (format_converter (reference_externals :: real externals) Float GDF_INT32
      [1, 2, 0] [0, 0, 2] None 3) =
      \<lparr>offsets = int32_column [0, 1, 2, 3], indices = int32_column [2, 0, 0],
        edge_data_adj = None\<rparr>"
    by (simp add: eval_defs)
  from transposed_is_swapped_conversion [OF ok] none derived conv ok show ?thesis
    by (auto simp: int32_column_def gdf_column_view_def weight_type_def)
qed

text \<open>
  C8 as stated does not hold for every handle on which the call succeeds. Take
  \<open>view_as_edge_list\<close> with the edges \<open>(1,0), (0,0)\<close>, then \<open>add_adjacency_list\<close>,
  \<open>add_transposed_adjacency_list\<close> and \<open>delete_edge_list\<close>. A second
  \<open>add_transposed_adjacency_list\<close> succeeds: it derives the Edge List \<open>(0,0), (1,0)\<close> from
  the Adjacency List and keeps the cached transposed list, whose indices \<open>[1,0]\<close> are not
  the converter's result \<open>[0,1]\<close> on \<open>(dest, src)\<close> of that Edge List.
\<close>

theorem cached_transposed_list_is_kept:
  "fst (gdf_add_transposed_adj_list reference_externals
      (snd (gdf_delete_edge_list
        (snd (gdf_add_transposed_adj_list reference_externals
          (snd (gdf_add_adj_list reference_externals
            (snd (gdf_edge_list_view reference_externals (empty_graph :: real gdf_graph)
               (int32_column [1, 0]) (int32_column [0, 0]) None))))))))) =
     Return GDF_SUCCESS \<and>
   edgeList (snd (gdf_add_transposed_adj_list reference_externals
      (snd (gdf_delete_edge_list
        (snd (gdf_add_transposed_adj_list reference_externals
          (snd (gdf_add_adj_list reference_externals
            (snd (gdf_edge_list_view reference_externals (empty_graph :: real gdf_graph)
               (int32_column [1, 0]) (int32_column [0, 0]) None)))))))))) =
     Some \<lparr>src_indices = int32_column [0, 1], dest_indices = int32_column [0, 0],
           edge_data = None\<rparr> \<and>
   transposedAdjList (snd (gdf_add_transposed_adj_list reference_externals
      (snd (gdf_delete_edge_list
        (snd (gdf_add_transposed_adj_list reference_externals
          (snd (gdf_add_adj_list reference_externals
            (snd (gdf_edge_list_view reference_externals (empty_graph :: real gdf_graph)
               (int32_column [1, 0]) (int32_column [0, 0]) None)))))))))) =
     Some \<lparr>offsets = int32_column [0, 2, 2], indices = int32_column [1, 0],
           edge_data_adj = None\<rparr> \<and>
   format_converter (reference_externals :: real externals) Float GDF_INT32
      (data (int32_column [0, 0])) (data (int32_column [0, 1])) None 2 =
     (0, \<lparr>offsets = int32_column [0, 2, 2], indices = int32_column [0, 1],
           edge_data_adj = None\<rparr>)"
  by (simp add: gdf_delete_edge_list_def eval_defs)

text \<open>
  C9: whenever the handle is empty, both null counts are zero, offsets and indices are
  int32, offsets is non-empty and the edge data (if any) has the size of indices,
  \<open>view_as_adjacency_list\<close> succeeds whatever the buffers hold: the contents \<open>xs\<close> and
  \<open>ys\<close> are arbitrary and are installed as they are.
\<close>

theorem adj_view_accepts_any_contents:
  assumes "no_representation g"
    and "null_count offs = 0" and "null_count inds = 0"
    and "dtype offs = GDF_INT32" and "dtype inds = GDF_INT32"
    and "0 < size_col offs"
    and "\<forall>w. ed = Some w \<longrightarrow> size_col w = size_col inds"
  shows "fst (gdf_adj_list_view g (offs\<lparr>data := xs\<rparr>) (inds\<lparr>data := ys\<rparr>) ed) =
           Return GDF_SUCCESS \<and>
         map_option (\<lambda>a. (data (offsets a), data (indices a)))
           (adjList (snd (gdf_adj_list_view g (offs\<lparr>data := xs\<rparr>) (inds\<lparr>data := ys\<rparr>) ed))) =
           Some (xs, ys)"
  using assms adj_view_accepts [of g "offs\<lparr>data := xs\<rparr>" "inds\<lparr>data := ys\<rparr>" ed]
  by (simp add: cpy_column_view_def gdf_column_view_def)

theorem adj_view_accepts_any_contents_witness:
  "fst (gdf_adj_list_view (empty_graph :: real gdf_graph)
      (int32_column [0, 0, 0]\<lparr>data := [5, 0, 9]\<rparr>) (int32_column [0, 0]\<lparr>data := [- 3, 100]\<rparr>)
      None) = Return GDF_SUCCESS \<and>
   map_option (\<lambda>a. (data (offsets a), data (indices a)))
     (adjList (snd (gdf_adj_list_view (empty_graph :: real gdf_graph)
        (int32_column [0, 0, 0]\<lparr>data := [5, 0, 9]\<rparr>)
        (int32_column [0, 0]\<lparr>data := [- 3, 100]\<rparr>) None))) =
     Some ([5, 0, 9], [- 3, 100])"
  using adj_view_accepts_any_contents
    [of "empty_graph :: real gdf_graph" "int32_column [0, 0, 0]" "int32_column [0, 0]" None
        "[5, 0, 9]" "[- 3, 100]"]
  by (simp add: empty_graph_def no_representation_def int32_column_def gdf_column_view_def)

text \<open>
  C10: zero is the not-yet-computed value of the cached vertex count. With a zero count
  and no Edge List \<open>number_of_vertices\<close> fails with \<open>InvalidState\<close>; with a zero count
  and an int32 Edge List the count is computed again from the edge list, never returned
  as cached; and after \<open>view_as_adjacency_list\<close> with a one-element offsets array the
  count is zero, an Adjacency List is present, and \<open>number_of_vertices\<close> fails with
  \<open>InvalidState\<close>.
\<close>

theorem zero_vertex_count_is_not_cached:
  "(numberOfVertices g = 0 \<and> edgeList g = None \<longrightarrow>
      InvalidState (fst (gdf_number_of_vertices g)) \<and> snd (gdf_number_of_vertices g) = g) \<and>
   (numberOfVertices g = 0 \<and> edgeList g = Some e \<and> dtype (src_indices e) = GDF_INT32 \<longrightarrow>
      numberOfVertices (snd (gdf_number_of_vertices g)) =
        int32_wrap (1 + max (DeviceReduce_Max (data (src_indices e)) (size_col (src_indices e)))
                            (DeviceReduce_Max (data (dest_indices e)) (size_col (src_indices e))))) \<and>
   (no_representation h \<and> null_count offs = 0 \<and> null_count inds = 0 \<and>
    dtype offs = GDF_INT32 \<and> dtype inds = GDF_INT32 \<and> size_col offs = 1 \<and>
    (\<forall>w. ed = Some w \<longrightarrow> size_col w = size_col inds) \<longrightarrow>
      fst (gdf_adj_list_view h offs inds ed) = Return GDF_SUCCESS \<and>
      adjList (snd (gdf_adj_list_view h offs inds ed)) \<noteq> None \<and>
      numberOfVertices (snd (gdf_adj_list_view h offs inds ed)) = 0 \<and>
      InvalidState (fst (gdf_number_of_vertices (snd (gdf_adj_list_view h offs inds ed)))) \<and>
      snd (gdf_number_of_vertices (snd (gdf_adj_list_view h offs inds ed))) =
        snd (gdf_adj_list_view h offs inds ed))"
proof (intro conjI impI)
  assume "numberOfVertices g = 0 \<and> edgeList g = None"
  then show "InvalidState (fst (gdf_number_of_vertices g))"
    and "snd (gdf_number_of_vertices g) = g"
    by (simp_all add: gdf_number_of_vertices_def InvalidState_def)
next
  assume "numberOfVertices g = 0 \<and> edgeList g = Some e \<and> dtype (src_indices e) = GDF_INT32"
  then show "numberOfVertices (snd (gdf_number_of_vertices g)) =
        int32_wrap (1 + max (DeviceReduce_Max (data (src_indices e)) (size_col (src_indices e)))
                            (DeviceReduce_Max (data (dest_indices e)) (size_col (src_indices e))))"
    by (simp add: gdf_number_of_vertices_def Let_def)
next
  assume a: "no_representation h \<and> null_count offs = 0 \<and> null_count inds = 0 \<and>
    dtype offs = GDF_INT32 \<and> dtype inds = GDF_INT32 \<and> size_col offs = 1 \<and>
    (\<forall>w. ed = Some w \<longrightarrow> size_col w = size_col inds)"
  then have one: "size_col offs = 1" by simp
  from a have *: "fst (gdf_adj_list_view h offs inds ed) = Return GDF_SUCCESS \<and>
         adjList (snd (gdf_adj_list_view h offs inds ed)) =
           Some \<lparr>offsets = cpy_column_view offs, indices = cpy_column_view inds,
                 edge_data_adj = map_option cpy_column_view ed\<rparr> \<and>
         edgeList (snd (gdf_adj_list_view h offs inds ed)) = None \<and>
         transposedAdjList (snd (gdf_adj_list_view h offs inds ed)) = None \<and>
         numberOfVertices (snd (gdf_adj_list_view h offs inds ed)) = size_col offs - 1"
    by (intro adj_view_accepts) simp_all
  from * show "fst (gdf_adj_list_view h offs inds ed) = Return GDF_SUCCESS" by simp
  from * show "adjList (snd (gdf_adj_list_view h offs inds ed)) \<noteq> None" by simp
  from * one show zero: "numberOfVertices (snd (gdf_adj_list_view h offs inds ed)) = 0" by simp
  from * zero show "InvalidState (fst (gdf_number_of_vertices (snd (gdf_adj_list_view h offs inds ed))))"
    and "snd (gdf_number_of_vertices (snd (gdf_adj_list_view h offs inds ed))) =
        snd (gdf_adj_list_view h offs inds ed)"
    by (simp_all add: gdf_number_of_vertices_def InvalidState_def)
qed

theorem zero_vertex_count_is_not_cached_witness:
  "InvalidState (fst (gdf_number_of_vertices (empty_graph :: real gdf_graph))) \<and>
   numberOfVertices (snd (gdf_number_of_vertices
     (empty_graph\<lparr>edgeList := Some \<lparr>src_indices = int32_column [],
        dest_indices = int32_column [], edge_data = None\<rparr>\<rparr> :: real gdf_graph))) =
     - 2147483647 \<and>
   fst (gdf_adj_list_view (empty_graph :: real gdf_graph) (int32_column [0]) (int32_column [])
      None) = Return GDF_SUCCESS \<and>
   numberOfVertices (snd (gdf_adj_list_view (empty_graph :: real gdf_graph) (int32_column [0])
      (int32_column []) None)) = 0 \<and>
   InvalidState (fst (gdf_number_of_vertices (snd (gdf_adj_list_view
      (empty_graph :: real gdf_graph) (int32_column [0]) (int32_column []) None))))"
  using zero_vertex_count_is_not_cached
    [of "empty_graph :: real gdf_graph"
        "\<lparr>src_indices = int32_column [], dest_indices = int32_column [], edge_data = None\<rparr>"
        "empty_graph :: real gdf_graph" "int32_column [0]" "int32_column []" None]
    zero_vertex_count_is_not_cached
    [of "empty_graph\<lparr>edgeList := Some \<lparr>src_indices = int32_column [],
           dest_indices = int32_column [], edge_data = None\<rparr>\<rparr> :: real gdf_graph"
        "\<lparr>src_indices = int32_column [], dest_indices = int32_column [], edge_data = None\<rparr>"
        "empty_graph :: real gdf_graph" "int32_column [0]" "int32_column []" None]
  by (simp add: empty_graph_def no_representation_def int32_column_def gdf_column_view_def
      DeviceReduce_Max_def INT32_LOWEST_def int32_wrap_def)

end
